theory Spec2Isabelle
  imports Main "HOL-Library.Sublist"
begin

section \<open>JavaScript strings\<close>

text \<open>
  A JavaScript string is modelled as a \<^typ>\<open>string\<close>: a list of code units, restricted
  to the code units below 256. The functions of this section are the methods of
  \<^verbatim>\<open>String.prototype\<close> and \<^verbatim>\<open>Array.prototype\<close> that
  \<^verbatim>\<open>backend/routes/github.js\<close> calls, at the arguments it calls them with.
\<close>

definition code_unit :: "char \<Rightarrow> nat" where
  "code_unit c = of_char c"

text \<open>White space as \<^verbatim>\<open>trim()\<close> sees it: TAB, LF, VT, FF, CR, SP and NBSP.\<close>

definition is_space :: "char \<Rightarrow> bool" where
  "is_space c = (code_unit c \<in> {9, 10, 11, 12, 13, 32, 160})"

definition trim :: "string \<Rightarrow> string" where
  "trim s = rev (dropWhile is_space (rev (dropWhile is_space s)))"

definition startsWith :: "string \<Rightarrow> string \<Rightarrow> bool" where
  "startsWith s p = prefix p s"

text \<open>\<^verbatim>\<open>s.split(sep)\<close> for a separator of one character; the result is never empty.\<close>

fun js_split :: "char \<Rightarrow> string \<Rightarrow> string list" where
  "js_split sep [] = [[]]"
| "js_split sep (c # cs) =
     (if c = sep then [] # js_split sep cs
      else (case js_split sep cs of
              [] \<Rightarrow> [[c]]
            | x # xs \<Rightarrow> (c # x) # xs))"

text \<open>\<^verbatim>\<open>parts.join(sep)\<close>.\<close>

fun js_join :: "string \<Rightarrow> string list \<Rightarrow> string" where
  "js_join sep [] = []"
| "js_join sep [x] = x"
| "js_join sep (x # y # ys) = x @ sep @ js_join sep (y # ys)"

text \<open>\<^verbatim>\<open>s.replace(pat, rep)\<close> for a string pattern: the first occurrence only.\<close>

fun replace_first :: "string \<Rightarrow> string \<Rightarrow> string \<Rightarrow> string" where
  "replace_first pat rep [] = (if pat = [] then rep else [])"
| "replace_first pat rep (c # cs) =
     (if prefix pat (c # cs) then rep @ drop (length pat) (c # cs)
      else c # replace_first pat rep cs)"

text \<open>\<^verbatim>\<open>s.replace(/\\/g, '/')\<close>: every backslash becomes a slash.\<close>

definition replace_backslashes :: "string \<Rightarrow> string" where
  "replace_backslashes s = map (\<lambda>c. if c = CHR 0x5C then CHR ''/'' else c) s"

text \<open>\<^verbatim>\<open>s.replace(/^https?:\/\//, '')\<close>.\<close>

definition strip_protocol :: "string \<Rightarrow> string" where
  "strip_protocol s =
     (if prefix ''https://'' s then drop 8 s
      else if prefix ''http://'' s then drop 7 s
      else s)"

text \<open>\<^verbatim>\<open>s.replace(/\.git$/, '')\<close>.\<close>

definition strip_dot_git :: "string \<Rightarrow> string" where
  "strip_dot_git s = (if suffix ''.git'' s then take (length s - 4) s else s)"

definition is_letter :: "char \<Rightarrow> bool" where
  "is_letter c = ((65 \<le> code_unit c \<and> code_unit c \<le> 90) \<or> (97 \<le> code_unit c \<and> code_unit c \<le> 122))"

definition is_digit :: "char \<Rightarrow> bool" where
  "is_digit c = (48 \<le> code_unit c \<and> code_unit c \<le> 57)"

text \<open>\<^verbatim>\<open>/^[a-zA-Z0-9._-]+$/.test(s)\<close>.\<close>

definition validPattern :: "string \<Rightarrow> bool" where
  "validPattern s =
     (s \<noteq> [] \<and> list_all (\<lambda>c. is_letter c \<or> is_digit c \<or> c \<in> {CHR ''.'', CHR ''_'', CHR ''-''}) s)"

text \<open>\<^verbatim>\<open>/^[a-zA-Z]:/.test(s)\<close>.\<close>

definition drive_letter :: "string \<Rightarrow> bool" where
  "drive_letter s = (case s of c # d # _ \<Rightarrow> is_letter c \<and> d = CHR '':'' | _ \<Rightarrow> False)"

section \<open>The reference parser\<close>

record repo_ref =
  owner :: string
  repo :: string
  branch :: string

text \<open>\<^verbatim>\<open>parseGitHubUrl(rawUrl)\<close>; \<^verbatim>\<open>null\<close> is \<^term>\<open>None\<close>.\<close>

definition parseGitHubUrl :: "string \<Rightarrow> repo_ref option" where
  "parseGitHubUrl rawUrl =
     (let url = strip_protocol (trim rawUrl) in
      if \<not> startsWith url ''github.com/'' then None
      else
        let parts = filter (\<lambda>s. s \<noteq> []) (js_split CHR ''/'' (replace_first ''github.com/'' [] url)) in
        if length parts < 2 then None
        else
          let own = parts ! 0;
              rep = strip_dot_git (parts ! 1);
              br = (if length parts \<ge> 4 \<and> parts ! 2 = ''tree''
                    then js_join ''/'' (drop 3 parts) else ''main'')
          in if \<not> validPattern own \<or> \<not> validPattern rep then None
             else Some \<lparr>owner = own, repo = rep, branch = br\<rparr>)"

section \<open>The policy engine\<close>

text \<open>\<^verbatim>\<open>sanitizePath(filePath)\<close>; \<^verbatim>\<open>null\<close> is \<^term>\<open>None\<close>.\<close>

definition sanitizePath :: "string \<Rightarrow> string option" where
  "sanitizePath filePath =
     (let normalized = replace_backslashes filePath in
      if startsWith normalized ''/'' \<or> drive_letter normalized then None
      else
        let segments = js_split CHR ''/'' normalized in
        if list_ex (\<lambda>s. s = ''..'') segments then None
        else Some normalized)"

section \<open>The rate limiter\<close>

record rate_entry =
  count :: nat
  resetTime :: int

definition RATE_LIMIT_MAX :: nat where
  "RATE_LIMIT_MAX = 5"

definition RATE_LIMIT_WINDOW :: int where
  "RATE_LIMIT_WINDOW = 60000"

text \<open>
  \<^verbatim>\<open>checkRateLimit(ip)\<close>, with the module's \<^verbatim>\<open>rateLimitMap\<close> and the
  value of \<^verbatim>\<open>Date.now()\<close> passed in; the updated map is returned with the verdict.
\<close>

definition checkRateLimit :: "(string \<rightharpoonup> rate_entry) \<Rightarrow> int \<Rightarrow> string \<Rightarrow> bool \<times> (string \<rightharpoonup> rate_entry)" where
  "checkRateLimit rateLimitMap now ip =
     (case rateLimitMap ip of
        None \<Rightarrow> (True, rateLimitMap(ip \<mapsto> \<lparr>count = 1, resetTime = now + RATE_LIMIT_WINDOW\<rparr>))
      | Some entry \<Rightarrow>
          if now > resetTime entry
          then (True, rateLimitMap(ip \<mapsto> \<lparr>count = 1, resetTime = now + RATE_LIMIT_WINDOW\<rparr>))
          else if count entry \<ge> RATE_LIMIT_MAX then (False, rateLimitMap)
          else (True, rateLimitMap(ip \<mapsto> entry\<lparr>count := count entry + 1\<rparr>)))"

text \<open>A run of checks by one client, at the given times, oldest first: the verdicts and the final map.\<close>

fun checks :: "(string \<rightharpoonup> rate_entry) \<Rightarrow> string \<Rightarrow> int list \<Rightarrow> bool list \<times> (string \<rightharpoonup> rate_entry)" where
  "checks m ip [] = ([], m)"
| "checks m ip (t # ts) =
     (let (ok, m') = checkRateLimit m t ip;
          (oks, m'') = checks m' ip ts
      in (ok # oks, m''))"

section \<open>The remote fetcher\<close>

text \<open>
  What one GET yields: the request fails (\<open>ConnError\<close>: the request's \<^verbatim>\<open>'error'\<close>
  event, or \<^verbatim>\<open>get\<close> throwing on a malformed URL), or a response arrives with its
  \<^verbatim>\<open>statusCode\<close>, its \<^verbatim>\<open>headers.location\<close>, the chunks of its
  \<^verbatim>\<open>'data'\<close> events in order, and whether the stream closes with \<^verbatim>\<open>'end'\<close>
  (\<open>True\<close>) or with \<^verbatim>\<open>'error'\<close> (\<open>False\<close>).
  The network is a function from the URL to this reply; the request headers are the same for
  every request of one invocation, and the choice between \<^verbatim>\<open>https\<close> and
  \<^verbatim>\<open>http\<close> is a function of the URL, so both are part of that function.
\<close>

datatype http_reply = ConnError | Reply nat "string option" "string list" bool

datatype fetch_error = HTTPStatus nat | ArchiveTooLarge | RequestError | InvalidJSON

text \<open>\<^verbatim>\<open>parseInt(process.env.MAX_REPO_SIZE_MB) || 100\<close>; \<open>None\<close> is \<^verbatim>\<open>NaN\<close>.\<close>

definition MAX_REPO_SIZE_MB :: "int option \<Rightarrow> int" where
  "MAX_REPO_SIZE_MB env = (case env of None \<Rightarrow> 100 | Some n \<Rightarrow> if n = 0 then 100 else n)"

definition MAX_REPO_SIZE_BYTES :: "int option \<Rightarrow> int" where
  "MAX_REPO_SIZE_BYTES env = MAX_REPO_SIZE_MB env * 1024 * 1024"

text \<open>
  The \<^verbatim>\<open>'data'\<close> handler of \<^verbatim>\<open>fetchBuffer\<close> over the chunks, then
  \<^verbatim>\<open>'end'\<close> or \<^verbatim>\<open>'error'\<close>.
\<close>

fun on_data :: "int \<Rightarrow> nat \<Rightarrow> string list \<Rightarrow> string list \<Rightarrow> bool \<Rightarrow> fetch_error + string" where
  "on_data cap totalSize chunks [] ended =
     (if ended then Inr (concat chunks) else Inl RequestError)"
| "on_data cap totalSize chunks (chunk # rest) ended =
     (if int (totalSize + length chunk) > cap then Inl ArchiveTooLarge
      else on_data cap (totalSize + length chunk) (chunks @ [chunk]) rest ended)"

text \<open>
  The redirect test of \<^verbatim>\<open>fetchBuffer\<close>:
  \<^verbatim>\<open>statusCode >= 300 && statusCode < 400 && headers.location\<close>
  (an empty \<^verbatim>\<open>location\<close> is falsy).
\<close>

definition redirect_target :: "nat \<Rightarrow> string option \<Rightarrow> string option" where
  "redirect_target statusCode location =
     (if statusCode \<ge> 300 \<and> statusCode < 400
      then (case location of None \<Rightarrow> None | Some l \<Rightarrow> if l = [] then None else Some l)
      else None)"

text \<open>
  \<^verbatim>\<open>fetchBuffer(url, headers)\<close>. The source puts no bound on the redirects it follows,
  so the promise may never settle: that is the value \<open>None\<close>. \<open>Some (Inl e)\<close> is a
  rejection, \<open>Some (Inr buffer)\<close> the resolved buffer.
\<close>

partial_function (option) fetchBuffer :: "(string \<Rightarrow> http_reply) \<Rightarrow> int \<Rightarrow> string \<Rightarrow> (fetch_error + string) option" where
  "fetchBuffer net cap url =
     (case net url of
        ConnError \<Rightarrow> Some (Inl RequestError)
      | Reply statusCode location body ended \<Rightarrow>
          (case redirect_target statusCode location of
             Some target \<Rightarrow> fetchBuffer net cap target
           | None \<Rightarrow>
               if statusCode \<noteq> 200 then Some (Inl (HTTPStatus statusCode))
               else Some (on_data cap 0 [] body ended)))"

declare fetchBuffer.simps [code]

text \<open>
  What \<^verbatim>\<open>JSON.parse\<close> yields, as far as the routes read it: \<^verbatim>\<open>null\<close>, or a
  value whose properties \<^verbatim>\<open>description\<close>, \<^verbatim>\<open>stargazers_count\<close>,
  \<^verbatim>\<open>language\<close> and \<^verbatim>\<open>size\<close> are read (\<open>None\<close>: absent or falsy).
\<close>

record repo_meta =
  description :: "string option"
  stargazers_count :: "nat option"
  language :: "string option"
  size_kb :: "nat option"

datatype json = JNull | JObject repo_meta

text \<open>
  \<^verbatim>\<open>fetchJson(url, headers)\<close>, with \<^verbatim>\<open>JSON.parse\<close> passed in (\<open>None\<close>:
  it throws). The chunks are the strings that \<^verbatim>\<open>data += chunk\<close> appends, each
  already decoded.
\<close>

definition fetchJson :: "(string \<Rightarrow> http_reply) \<Rightarrow> (string \<Rightarrow> json option) \<Rightarrow> string \<Rightarrow> fetch_error + json" where
  "fetchJson net parse url =
     (case net url of
        ConnError \<Rightarrow> Inl RequestError
      | Reply statusCode location body ended \<Rightarrow>
          if statusCode \<noteq> 200 then Inl (HTTPStatus statusCode)
          else if \<not> ended then Inl RequestError
          else (case parse (concat body) of
                  None \<Rightarrow> Inl InvalidJSON
                | Some v \<Rightarrow> Inr v))"

section \<open>Paths and file types\<close>

text \<open>
  Node's \<^verbatim>\<open>path.basename\<close> and \<^verbatim>\<open>path.extname\<close> (POSIX flavour, one
  argument), as its documentation gives them: the last component of the path, trailing
  slashes dropped; and that component from its last dot on, empty when it has no dot, when its
  only dot is its first character, or when it is \<^verbatim>\<open>..\<close>.
\<close>

definition basename :: "string \<Rightarrow> string" where
  "basename p =
     rev (takeWhile (\<lambda>c. c \<noteq> CHR ''/'') (dropWhile (\<lambda>c. c = CHR ''/'') (rev p)))"

definition extname :: "string \<Rightarrow> string" where
  "extname p =
     (let b = basename p;
          e = rev (takeWhile (\<lambda>c. c \<noteq> CHR ''.'') (rev b))
      in if CHR ''.'' \<notin> set b then []
         else if Suc (length e) = length b then []
         else if b = ''..'' then []
         else CHR ''.'' # e)"

text \<open>\<^verbatim>\<open>toLowerCase()\<close> on the code units below 256.\<close>

definition toLowerCase :: "string \<Rightarrow> string" where
  "toLowerCase s =
     map (\<lambda>c. let n = code_unit c in
               if (65 \<le> n \<and> n \<le> 90) \<or> (192 \<le> n \<and> n \<le> 222 \<and> n \<noteq> 215)
               then char_of (n + 32) else c) s"

definition BLOCKED_EXTENSIONS :: "string list" where
  "BLOCKED_EXTENSIONS =
     [''.exe'', ''.bat'', ''.cmd'', ''.sh'', ''.msi'', ''.dll'', ''.so'',
      ''.bin'', ''.com'', ''.scr'', ''.pif'', ''.vbs'', ''.wsf'', ''.ps1'']"

definition isBlockedFile :: "string \<Rightarrow> bool" where
  "isBlockedFile filename = (toLowerCase (extname filename) \<in> set BLOCKED_EXTENSIONS)"

definition mimeMap :: "(string \<times> string) list" where
  "mimeMap =
     [(''.js'', ''text/javascript''), (''.jsx'', ''text/javascript''),
      (''.ts'', ''application/typescript''), (''.tsx'', ''application/typescript''),
      (''.json'', ''application/json''), (''.html'', ''text/html''),
      (''.css'', ''text/css''), (''.scss'', ''text/css''),
      (''.md'', ''text/markdown''), (''.txt'', ''text/plain''),
      (''.xml'', ''application/xml''), (''.svg'', ''image/svg+xml''),
      (''.png'', ''image/png''), (''.jpg'', ''image/jpeg''), (''.jpeg'', ''image/jpeg''),
      (''.gif'', ''image/gif''), (''.webp'', ''image/webp''),
      (''.pdf'', ''application/pdf''), (''.zip'', ''application/zip''),
      (''.yaml'', ''text/yaml''), (''.yml'', ''text/yaml''),
      (''.toml'', ''text/plain''), (''.lock'', ''text/plain''),
      (''.py'', ''text/x-python''), (''.rb'', ''text/x-ruby''),
      (''.go'', ''text/x-go''), (''.rs'', ''text/x-rust''),
      (''.java'', ''text/x-java''), (''.c'', ''text/x-c''), (''.cpp'', ''text/x-c''),
      (''.h'', ''text/x-c''), (''.sh'', ''text/x-shellscript''),
      (''.env'', ''text/plain''), (''.gitignore'', ''text/plain'')]"

definition getMimeType :: "string \<Rightarrow> string" where
  "getMimeType filename =
     (case map_of mimeMap (toLowerCase (extname filename)) of
        None \<Rightarrow> ''application/octet-stream''
      | Some m \<Rightarrow> m)"

section \<open>The archive extractor\<close>

text \<open>
  An entry of the opened archive, as the route reads it: \<^verbatim>\<open>entryName\<close>,
  \<^verbatim>\<open>isDirectory\<close>, \<^verbatim>\<open>header.size\<close> and the bytes that
  \<^verbatim>\<open>getData()\<close> returns. Once the archive has opened,
  \<^verbatim>\<open>getEntries()\<close> and \<^verbatim>\<open>getData()\<close> are taken to return: a run in
  which one of them throws (the handler's \<^verbatim>\<open>catch\<close> answers 500) is not a run of
  this model.
\<close>

record zip_entry =
  entryName :: string
  isDirectory :: bool
  header_size :: nat
  getData :: string

text \<open>An element of \<^verbatim>\<open>files\<close>; \<open>file_size\<close> is its \<^verbatim>\<open>size\<close>.\<close>

record extracted_file =
  relativePath :: string
  filename :: string
  buffer :: string
  file_size :: nat
  mimetype :: string

text \<open>The three variables the extraction loop updates.\<close>

record extraction =
  files :: "extracted_file list"
  totalSize :: nat
  skippedCount :: nat

definition MAX_SINGLE_FILE_BYTES :: nat where
  "MAX_SINGLE_FILE_BYTES = 10 * 1024 * 1024"

definition MAX_FILE_COUNT :: nat where
  "MAX_FILE_COUNT = 500"

text \<open>
  \<^verbatim>\<open>entries.length > 0 ? entries[0].entryName.split('/')[0] + '/' : ''\<close>
\<close>

definition rootPrefix :: "zip_entry list \<Rightarrow> string" where
  "rootPrefix entries =
     (case entries of
        [] \<Rightarrow> []
      | e # _ \<Rightarrow> (js_split CHR ''/'' (entryName e)) ! 0 @ ''/'')"

text \<open>The path of an entry with the root folder stripped.\<close>

definition strip_root :: "string \<Rightarrow> zip_entry \<Rightarrow> string" where
  "strip_root root entry =
     (if root \<noteq> [] \<and> startsWith (entryName entry) root
      then drop (length root) (entryName entry)
      else entryName entry)"

definition skip :: "extraction \<Rightarrow> extraction" where
  "skip st = st\<lparr>skippedCount := skippedCount st + 1\<rparr>"

text \<open>One turn of the loop \<^verbatim>\<open>for (const entry of entries)\<close>.\<close>

definition extract_entry :: "string \<Rightarrow> extraction \<Rightarrow> zip_entry \<Rightarrow> extraction" where
  "extract_entry root st entry =
     (if isDirectory entry then st
      else
        let rel = strip_root root entry in
        if rel = [] then st
        else
          (case sanitizePath rel of
             None \<Rightarrow> skip st
           | Some safePath \<Rightarrow>
               if safePath = [] then skip st
               else if isBlockedFile safePath then skip st
               else if header_size entry > MAX_SINGLE_FILE_BYTES then skip st
               else if length (files st) \<ge> MAX_FILE_COUNT then skip st
               else
                 let buf = getData entry in
                 if length buf = 0 then skip st
                 else st\<lparr>totalSize := totalSize st + length buf,
                         files := files st @
                           [\<lparr>relativePath = safePath, filename = basename safePath,
                             buffer = buf, file_size = length buf,
                             mimetype = getMimeType safePath\<rparr>]\<rparr>))"

text \<open>The whole loop, from \<^verbatim>\<open>files = []\<close>, \<^verbatim>\<open>totalSize = 0\<close>, \<^verbatim>\<open>skippedCount = 0\<close>.\<close>

definition extract_entries :: "zip_entry list \<Rightarrow> extraction" where
  "extract_entries entries =
     foldl (extract_entry (rootPrefix entries))
       \<lparr>files = [], totalSize = 0, skippedCount = 0\<rparr> entries"

text \<open>
  The entries the loop submits to the checks: not a directory, and with a path left after the
  root folder is stripped.
\<close>

definition candidate :: "string \<Rightarrow> zip_entry \<Rightarrow> bool" where
  "candidate root entry = (\<not> isDirectory entry \<and> strip_root root entry \<noteq> [])"

section \<open>The bulk uploader\<close>

text \<open>
  Everything outside the process that one invocation of the import route meets:
  the network, \<^verbatim>\<open>JSON.parse\<close>, the archive library (\<open>None\<close>: the constructor
  throws), the content store (\<open>upload_stream\<close> maps the requested public id and the bytes
  to the store's \<^verbatim>\<open>public_id\<close> and \<^verbatim>\<open>secure_url\<close>, \<open>None\<close>: the callback
  gets an error), the prefix \<^verbatim>\<open>Date.now() + '-' + Math.round(Math.random() * 1E9)\<close>
  of the \<open>i\<close>-th upload, the metadata store (\<open>findOne\<close>: whether a container of that name
  exists, \<open>None\<close>: the query rejects; \<open>save\<close>: whether \<^verbatim>\<open>container.save()\<close>
  resolves), the two values of \<^verbatim>\<open>crypto.randomBytes(n).toString('hex')\<close>, the new
  container's \<^verbatim>\<open>_id\<close>, and \<^verbatim>\<open>parseInt(process.env.MAX_REPO_SIZE_MB)\<close>.
\<close>

record world =
  net :: "string \<Rightarrow> http_reply"
  JSON_parse :: "string \<Rightarrow> json option"
  AdmZip :: "string \<Rightarrow> zip_entry list option"
  upload_stream :: "string \<Rightarrow> string \<Rightarrow> (string \<times> string) option"
  stamp :: "nat \<Rightarrow> string"
  findOne :: "string \<Rightarrow> bool option"
  save :: bool
  randomBytes6 :: string
  randomBytes3 :: string
  container_id :: string
  env_MAX_REPO_SIZE_MB :: "int option"

text \<open>\<^verbatim>\<open>filename.replace(/\.[^/.]+$/, '')\<close>: a last extension is dropped.\<close>

definition strip_extension :: "string \<Rightarrow> string" where
  "strip_extension s =
     (let e = rev (takeWhile (\<lambda>c. c \<noteq> CHR ''.'' \<and> c \<noteq> CHR ''/'') (rev s)) in
      if e \<noteq> [] \<and> length e < length s \<and> s ! (length s - length e - 1) = CHR ''.''
      then take (length s - length e - 1) s
      else s)"

text \<open>The \<^verbatim>\<open>sanitizedName\<close> of \<^verbatim>\<open>uploadToCloudinary\<close>.\<close>

definition sanitizedName :: "string \<Rightarrow> string" where
  "sanitizedName fname =
     take 100
       (map (\<lambda>c. if is_letter c \<or> is_digit c \<or> c = CHR ''_'' \<or> c = CHR ''-'' then c else CHR ''_'')
          (strip_extension fname))"

record cloud_result =
  publicId :: string
  url :: string
  resourceType :: string

text \<open>
  \<^verbatim>\<open>uploadToCloudinary(buffer, filename)\<close>, for the \<open>i\<close>-th call of the invocation;
  \<open>None\<close> is a rejection.
\<close>

definition uploadToCloudinary :: "world \<Rightarrow> nat \<Rightarrow> string \<Rightarrow> string \<Rightarrow> cloud_result option" where
  "uploadToCloudinary w i buf fname =
     (case upload_stream w (stamp w i @ ''-'' @ sanitizedName fname) buf of
        None \<Rightarrow> None
      | Some (public_id, secure_url) \<Rightarrow>
          Some \<lparr>publicId = public_id, url = secure_url, resourceType = ''raw''\<rparr>)"

text \<open>An element of \<^verbatim>\<open>container.files\<close>, with the source's keys after \<open>up_\<close>.\<close>

record uploaded_file =
  up_filename :: string
  up_originalName :: string
  up_mimetype :: string
  up_size :: nat
  up_path :: string
  up_publicId :: string
  up_resourceType :: string
  up_relativePath :: string

text \<open>
  What the promise of the \<open>i\<close>-th file settles to: the async function of
  \<^verbatim>\<open>files.map\<close> catches a rejected upload and returns \<^verbatim>\<open>null\<close>.
\<close>

definition upload_one :: "world \<Rightarrow> nat \<Rightarrow> extracted_file \<Rightarrow> uploaded_file option" where
  "upload_one w i file =
     (case uploadToCloudinary w i (buffer file) (filename file) of
        None \<Rightarrow> None
      | Some result \<Rightarrow>
          Some \<lparr>up_filename = publicId result, up_originalName = filename file,
                up_mimetype = mimetype file, up_size = file_size file,
                up_path = url result, up_publicId = publicId result,
                up_resourceType = resourceType result,
                up_relativePath = relativePath file\<rparr>)"

text \<open>
  The effects of the upload stage, in program order. \<open>Issued i\<close>: the call
  \<^verbatim>\<open>uploadToCloudinary(file.buffer, file.filename)\<close> for the file at index \<open>i\<close>,
  whose promise executor opens the upload stream and pipes the buffer into it.
  \<open>Awaited is\<close>: the handler suspends at \<^verbatim>\<open>await Promise.all(batch)\<close> for the
  promises at the indices \<open>is\<close>, and resumes when all of them have settled.
\<close>

datatype upload_event = Issued nat | Awaited "nat list"

text \<open>
  \<^verbatim>\<open>const uploadPromises = files.map(async (file) => { ... })\<close>, from index \<open>i\<close> on.
  \<^verbatim>\<open>map\<close> calls the async function on every file in turn, and an async function
  runs synchronously up to its first \<^verbatim>\<open>await\<close>, whose operand is the call of
  \<^verbatim>\<open>uploadToCloudinary\<close>: every upload is issued inside this one statement.
  The result pairs the effects with what each promise settles to.
\<close>

fun uploadPromises :: "world \<Rightarrow> nat \<Rightarrow> extracted_file list \<Rightarrow> upload_event list \<times> uploaded_file option list" where
  "uploadPromises w i [] = ([], [])"
| "uploadPromises w i (file # rest) =
     (let (evs, ps) = uploadPromises w (Suc i) rest
      in (Issued i # evs, upload_one w i file # ps))"

definition BATCH_SIZE :: nat where
  "BATCH_SIZE = 10"

text \<open>
  The loop \<^verbatim>\<open>for (let i = 0; i < uploadPromises.length; i += BATCH_SIZE)\<close>:
  \<^verbatim>\<open>slice(i, i + BATCH_SIZE)\<close>, \<^verbatim>\<open>await Promise.all\<close>, and the results that
  are not \<^verbatim>\<open>null\<close> pushed to \<^verbatim>\<open>uploadedFiles\<close>.
\<close>

function await_batches :: "nat \<Rightarrow> 'a option list \<Rightarrow> upload_event list \<times> 'a list \<Rightarrow> upload_event list \<times> 'a list" where
  "await_batches i promises acc =
     (if i < length promises
      then
        let batch = take BATCH_SIZE (drop i promises)
        in await_batches (i + BATCH_SIZE) promises
             (fst acc @ [Awaited [i ..< i + length batch]],
              snd acc @ map the (filter (\<lambda>r. r \<noteq> None) batch))
      else acc)"
  by pat_completeness auto
termination
  by (relation "measure (\<lambda>(i, promises, acc). length promises - i)") (auto simp: BATCH_SIZE_def)

declare await_batches.simps [simp del]

text \<open>Step 6 of the route: the effects in order, and \<^verbatim>\<open>uploadedFiles\<close>.\<close>

definition upload_all :: "world \<Rightarrow> extracted_file list \<Rightarrow> upload_event list \<times> uploaded_file list" where
  "upload_all w fs =
     (let (issued, promises) = uploadPromises w 0 fs
      in await_batches 0 promises (issued, []))"

section \<open>The import route\<close>

text \<open>
  \<^verbatim>\<open>req.body\<close> (\<open>None\<close>: absent) with its properties \<^verbatim>\<open>repoUrl\<close> and
  \<^verbatim>\<open>branch\<close> (\<open>None\<close>: absent), and the client address the route derives from
  the request.
\<close>

record import_body =
  repoUrl :: "string option"
  requestedBranch :: "string option"

record request =
  clientIp :: string
  body :: "import_body option"

text \<open>The error responses of the route, one constructor for each message.\<close>

datatype import_error =
    TooManyRequests
  | UrlRequired
  | InvalidUrl
  | RepoNotFound string string
  | RepoTooLarge
  | BranchNotFound string
  | BranchNotFoundTrySpecifying string
  | ArchiveUnreadable
  | NoValidFiles
  | UploadFailed
  | ImportFailed

text \<open>The body of the 201 response, with the source's keys after \<open>info_\<close> and \<open>res_\<close>.\<close>

record repo_info =
  info_owner :: string
  info_repo :: string
  info_branch :: string
  info_description :: string
  info_stars :: nat
  info_language :: string

record import_result =
  res_containerId :: string
  res_containerName :: string
  res_password :: string
  res_sandboxUrl :: string
  res_fileCount :: nat
  res_skippedCount :: nat
  res_totalSize :: nat
  res_repoInfo :: repo_info

datatype response = Failure nat import_error | Created import_result

text \<open>\<^verbatim>\<open>x || d\<close> for a property that may be absent.\<close>

definition or_default :: "'a option \<Rightarrow> 'a \<Rightarrow> 'a" where
  "or_default x d = (case x of None \<Rightarrow> d | Some v \<Rightarrow> v)"

definition zipUrl :: "string \<Rightarrow> string \<Rightarrow> string \<Rightarrow> string" where
  "zipUrl own rep br =
     ''https://github.com/'' @ own @ ''/'' @ rep @ ''/archive/refs/heads/'' @ br @ ''.zip''"

definition masterUrl :: "string \<Rightarrow> string \<Rightarrow> string" where
  "masterUrl own rep =
     ''https://github.com/'' @ own @ ''/'' @ rep @ ''/archive/refs/heads/master.zip''"

definition apiUrl :: "string \<Rightarrow> string \<Rightarrow> string" where
  "apiUrl own rep = ''https://api.github.com/repos/'' @ own @ ''/'' @ rep"

text \<open>
  Steps 5 to 7: the container's name, the uploads, the save and the 201 response. The result
  pairs the upload effects with the response.
\<close>

definition import_files :: "world \<Rightarrow> string \<Rightarrow> string \<Rightarrow> string \<Rightarrow> repo_meta \<Rightarrow> extraction \<Rightarrow> upload_event list \<times> response" where
  "import_files w own rep br meta ex =
     (let containerName = take 50 (''gh-'' @ own @ ''-'' @ rep);
          autoPassword = randomBytes6 w
      in case findOne w containerName of
           None \<Rightarrow> ([], Failure 500 ImportFailed)
         | Some existing \<Rightarrow>
             let finalName = (if existing then containerName @ ''-'' @ randomBytes3 w
                              else containerName);
                 (evs, uploadedFiles) = upload_all w (files ex)
             in if length uploadedFiles = 0 then (evs, Failure 500 UploadFailed)
                else if \<not> save w then (evs, Failure 500 ImportFailed)
                else (evs, Created
                  \<lparr>res_containerId = container_id w,
                   res_containerName = finalName,
                   res_password = autoPassword,
                   res_sandboxUrl = ''#/sandbox/'' @ container_id w,
                   res_fileCount = length uploadedFiles,
                   res_skippedCount = skippedCount ex,
                   res_totalSize = totalSize ex,
                   res_repoInfo =
                     \<lparr>info_owner = own, info_repo = rep, info_branch = br,
                      info_description = or_default (description meta) [],
                      info_stars = or_default (stargazers_count meta) 0,
                      info_language = or_default (language meta) []\<rparr>\<rparr>))"

text \<open>Step 4: the archive is opened and its entries are extracted.\<close>

definition import_archive :: "world \<Rightarrow> string \<Rightarrow> string \<Rightarrow> string \<Rightarrow> repo_meta \<Rightarrow> string \<Rightarrow> upload_event list \<times> response" where
  "import_archive w own rep br meta zipBuffer =
     (case AdmZip w zipBuffer of
        None \<Rightarrow> ([], Failure 500 ArchiveUnreadable)
      | Some entries \<Rightarrow>
          let ex = extract_entries entries in
          if length (files ex) = 0 then ([], Failure 400 NoValidFiles)
          else import_files w own rep br meta ex)"

text \<open>
  Step 3: the archive of the branch is fetched, and the archive of \<^verbatim>\<open>master\<close> when
  that fails and \<^verbatim>\<open>branch === 'main'\<close>. The result pairs the URLs the route handed to
  \<^verbatim>\<open>fetchBuffer\<close>, in order, with the error response or the buffer; \<open>None\<close>: a
  fetch never settles.
\<close>

definition download_archive :: "world \<Rightarrow> string \<Rightarrow> string \<Rightarrow> string \<Rightarrow> (string list \<times> (response + string)) option" where
  "download_archive w own rep br =
     (let cap = MAX_REPO_SIZE_BYTES (env_MAX_REPO_SIZE_MB w) in
      case fetchBuffer (net w) cap (zipUrl own rep br) of
        None \<Rightarrow> None
      | Some (Inr zipBuffer) \<Rightarrow> Some ([zipUrl own rep br], Inr zipBuffer)
      | Some (Inl err) \<Rightarrow>
          if br = ''main'' then
            (case fetchBuffer (net w) cap (masterUrl own rep) of
               None \<Rightarrow> None
             | Some (Inr zipBuffer) \<Rightarrow>
                 Some ([zipUrl own rep br, masterUrl own rep], Inr zipBuffer)
             | Some (Inl err2) \<Rightarrow>
                 Some ([zipUrl own rep br, masterUrl own rep],
                       Inl (Failure 404 (BranchNotFoundTrySpecifying br))))
          else Some ([zipUrl own rep br], Inl (Failure 404 (BranchNotFound br))))"

text \<open>
  Steps 2 to 7, for the owner, the repository and the branch the route settled on. The result
  holds the URLs the route fetched, the upload effects and the response.
\<close>

definition import_repo :: "world \<Rightarrow> string \<Rightarrow> string \<Rightarrow> string \<Rightarrow> (string list \<times> upload_event list \<times> response) option" where
  "import_repo w own rep br =
     (case fetchJson (net w) (JSON_parse w) (apiUrl own rep) of
        Inl err \<Rightarrow> Some ([apiUrl own rep], [], Failure 404 (RepoNotFound own rep))
      | Inr JNull \<Rightarrow> Some ([apiUrl own rep], [], Failure 500 ImportFailed)
      | Inr (JObject repoMeta) \<Rightarrow>
          if int (or_default (size_kb repoMeta) 0 * 1024) > MAX_REPO_SIZE_BYTES (env_MAX_REPO_SIZE_MB w)
          then Some ([apiUrl own rep], [], Failure 413 RepoTooLarge)
          else
            (case download_archive w own rep br of
               None \<Rightarrow> None
             | Some (urls, Inl resp) \<Rightarrow> Some (apiUrl own rep # urls, [], resp)
             | Some (urls, Inr zipBuffer) \<Rightarrow>
                 (let (evs, resp) = import_archive w own rep br repoMeta zipBuffer
                  in Some (apiUrl own rep # urls, evs, resp))))"

text \<open>\<^verbatim>\<open>requestedBranch || parsed.branch\<close>: an absent or empty requested branch is falsy.\<close>

definition effective_branch :: "string option \<Rightarrow> repo_ref \<Rightarrow> string" where
  "effective_branch requested parsed =
     (case requested of
        None \<Rightarrow> branch parsed
      | Some b \<Rightarrow> if b = [] then branch parsed else b)"

text \<open>What one invocation leaves behind: the response, the rate limiter's map and the effects.\<close>

record outcome =
  response :: response
  rateLimitMap :: "string \<rightharpoonup> rate_entry"
  fetched :: "string list"
  uploads :: "upload_event list"

text \<open>
  The handler of \<^verbatim>\<open>POST /import\<close>, from the rate limiter's map and the value of
  \<^verbatim>\<open>Date.now()\<close>. An exception inside the handler reaches its \<^verbatim>\<open>catch\<close>,
  which answers 500; \<open>None\<close>: the handler never answers.
\<close>

definition import_route :: "world \<Rightarrow> (string \<rightharpoonup> rate_entry) \<Rightarrow> int \<Rightarrow> request \<Rightarrow> outcome option" where
  "import_route w m now req =
     (let (allowed, m') = checkRateLimit m now (clientIp req);
          answer = (\<lambda>r. Some \<lparr>response = r, rateLimitMap = m', fetched = [], uploads = []\<rparr>)
      in if \<not> allowed then answer (Failure 429 TooManyRequests)
         else
           (case body req of
              None \<Rightarrow> answer (Failure 500 ImportFailed)
            | Some b \<Rightarrow>
                if or_default (repoUrl b) [] = [] then answer (Failure 400 UrlRequired)
                else
                  (case parseGitHubUrl (or_default (repoUrl b) []) of
                     None \<Rightarrow> answer (Failure 400 InvalidUrl)
                   | Some parsed \<Rightarrow>
                       (case import_repo w (owner parsed) (repo parsed)
                               (effective_branch (requestedBranch b) parsed) of
                          None \<Rightarrow> None
                        | Some (urls, evs, r) \<Rightarrow>
                            Some \<lparr>response = r, rateLimitMap = m', fetched = urls,
                                  uploads = evs\<rparr>))))"

section \<open>Notions for the statements\<close>

text \<open>
  The first three notions follow the specification's words for the path check, not the
  code. The path \<open>n\<close> is the path \<open>p\<close> with its backslashes normalised to
  forward slashes when it has the length of \<open>p\<close> and, at every position, a slash where
  \<open>p\<close> has a backslash and the character of \<open>p\<close> otherwise.
\<close>

definition backslashes_turned :: "string \<Rightarrow> string \<Rightarrow> bool" where
  "backslashes_turned p n =
     (length n = length p
      \<and> (\<forall>i < length p. n ! i = (if p ! i = CHR 0x5C then CHR ''/'' else p ! i)))"

text \<open>
  A path has the segment \<open>seg\<close> when \<open>seg\<close> stands in it between two slashes,
  between its start and a slash, between a slash and its end, or is the whole path.
\<close>

definition has_segment :: "string \<Rightarrow> string \<Rightarrow> bool" where
  "has_segment seg p =
     (\<exists>pre post. p = pre @ seg @ post
        \<and> (pre = [] \<or> last pre = CHR ''/'')
        \<and> (post = [] \<or> hd post = CHR ''/''))"

text \<open>A path is absolute when it starts with a slash or with a letter and a colon.\<close>

definition ascii_letters :: "char set" where
  "ascii_letters = set ''ABCDEFGHIJKLMNOPQRSTUVWXYZ'' \<union> set ''abcdefghijklmnopqrstuvwxyz''"

definition absolute_path :: "string \<Rightarrow> bool" where
  "absolute_path p =
     ((\<exists>rest. p = CHR ''/'' # rest)
      \<or> (\<exists>c rest. p = c # CHR '':'' # rest \<and> c \<in> ascii_letters))"




text \<open>The branch that a 201 response reports, if the route answers with one.\<close>

definition reported_branch :: "outcome option \<Rightarrow> string option" where
  "reported_branch res =
     (case res of
        None \<Rightarrow> None
      | Some out \<Rightarrow>
          (case response out of
             Failure code err \<Rightarrow> None
           | Created r \<Rightarrow> Some (info_branch (res_repoInfo r))))"

text \<open>The uploads that failed: the promises of \<^verbatim>\<open>uploadPromises\<close> that settle to \<^verbatim>\<open>null\<close>.\<close>

definition failed_uploads :: "world \<Rightarrow> extracted_file list \<Rightarrow> nat" where
  "failed_uploads w fs = length (filter (\<lambda>p. p = None) (snd (uploadPromises w 0 fs)))"

section \<open>Concrete inputs\<close>

subsection \<open>A client of the rate limiter\<close>

text \<open>A rate limiter's map with one client, whose window ended at time 999.\<close>

definition one_client :: "string \<rightharpoonup> rate_entry" where
  "one_client = Map.empty(''10.0.0.7'' \<mapsto> \<lparr>count = 5, resetTime = 999\<rparr>)"

subsection \<open>A small archive\<close>

text \<open>
  The archive of a repository with three files under the root folder
  \<^verbatim>\<open>repo-main/\<close>: a README, a script and an executable.
\<close>

definition small_archive :: "zip_entry list" where
  "small_archive =
     [\<lparr>entryName = ''repo-main/'', isDirectory = True, header_size = 0, getData = []\<rparr>,
      \<lparr>entryName = ''repo-main/README.md'', isDirectory = False, header_size = 4, getData = ''# hi''\<rparr>,
      \<lparr>entryName = ''repo-main/src/app.js'', isDirectory = False, header_size = 2, getData = ''1;''\<rparr>,
      \<lparr>entryName = ''repo-main/notes.exe'', isDirectory = False, header_size = 2, getData = ''MZ''\<rparr>]"

subsection \<open>A world for the import route\<close>

text \<open>
  The repository \<^verbatim>\<open>octocat/repo\<close> has no branch \<^verbatim>\<open>main\<close>: its archive answers
  404. The archive of \<^verbatim>\<open>master\<close> answers 302 with the location of the download
  host, which delivers the small archive in two chunks. The metadata service answers with the
  empty object. Every other URL fails to connect.
  The content store accepts every upload but that of the bytes \<^verbatim>\<open>1;\<close>.
\<close>

definition demo_net :: "string \<Rightarrow> http_reply" where
  "demo_net u =
     (if u = ''https://api.github.com/repos/octocat/repo''
        then Reply 200 None [''{'', ''}''] True
      else if u = ''https://github.com/octocat/repo/archive/refs/heads/main.zip''
        then Reply 404 None [''Not Found''] True
      else if u = ''https://github.com/octocat/repo/archive/refs/heads/master.zip''
        then Reply 302 (Some ''https://codeload.github.com/octocat/repo/zip/refs/heads/master'') [] True
      else if u = ''https://codeload.github.com/octocat/repo/zip/refs/heads/master''
        then Reply 200 None [''PK'', ''zip''] True
      else ConnError)"

definition demo_world :: world where
  "demo_world =
     \<lparr>net = demo_net,
      JSON_parse = (\<lambda>s. if s = ''{}''
                         then Some (JObject \<lparr>description = None, stargazers_count = None,
                                             language = None, size_kb = None\<rparr>)
                         else None),
      AdmZip = (\<lambda>b. if b = ''PKzip'' then Some small_archive else None),
      upload_stream = (\<lambda>public_id b. if b = ''1;'' then None
                         else Some (''kabada-uploads/'' @ public_id, ''https://cdn/'' @ public_id)),
      stamp = (\<lambda>i. ''1700000000000-42''),
      findOne = (\<lambda>name. Some False),
      save = True,
      randomBytes6 = ''a1b2c3d4e5f6'',
      randomBytes3 = ''0f0f0f'',
      container_id = ''65f0'',
      env_MAX_REPO_SIZE_MB = None\<rparr>"

text \<open>The metadata that the empty object stands for.\<close>

definition no_meta :: repo_meta where
  "no_meta = \<lparr>description = None, stargazers_count = None, language = None, size_kb = None\<rparr>"

text \<open>
  Four requests for that repository: one that names no branch, one that spells out the
  branch \<^verbatim>\<open>main\<close>, one whose body names a branch that is no identifier, and one
  whose locator carries such a branch.
\<close>

definition request_default :: request where
  "request_default =
     \<lparr>clientIp = ''10.0.0.7'',
      body = Some \<lparr>repoUrl = Some ''https://github.com/octocat/repo'', requestedBranch = None\<rparr>\<rparr>"

definition request_main :: request where
  "request_main =
     \<lparr>clientIp = ''10.0.0.7'',
      body = Some \<lparr>repoUrl = Some ''https://github.com/octocat/repo'', requestedBranch = Some ''main''\<rparr>\<rparr>"

definition request_odd :: request where
  "request_odd =
     \<lparr>clientIp = ''10.0.0.7'',
      body = Some \<lparr>repoUrl = Some ''https://github.com/octocat/repo'',
                   requestedBranch = Some ''../x y?z''\<rparr>\<rparr>"


subsection \<open>A renamed repository\<close>

text \<open>
  The metadata service answers the old name of a repository with 301 and the location of
  the repository under its number, which answers 200 with the empty object.
\<close>

definition renamed_net :: "string \<Rightarrow> http_reply" where
  "renamed_net u =
     (if u = ''https://api.github.com/repos/old/name''
        then Reply 301 (Some ''https://api.github.com/repositories/1'') [] True
      else if u = ''https://api.github.com/repositories/1''
        then Reply 200 None [''{}''] True
      else ConnError)"

subsection \<open>Eleven admitted files\<close>

definition one_file :: extracted_file where
  "one_file =
     \<lparr>relativePath = ''a.txt'', filename = ''a.txt'', buffer = ''x'', file_size = 1,
      mimetype = ''text/plain''\<rparr>"

definition eleven_files :: "extracted_file list" where
  "eleven_files =
     [one_file, one_file, one_file, one_file, one_file, one_file,
      one_file, one_file, one_file, one_file, one_file]"

section \<open>Characters\<close>

lemma code_unit_eq: "(code_unit c = code_unit d) = (c = d)"
  by (simp add: code_unit_def)

lemma code_unit_mem: "(code_unit c \<in> code_unit ` A) = (c \<in> A)"
  by (auto simp: code_unit_eq)

lemma is_letter_iff: "is_letter c = (c \<in> ascii_letters)"
proof -
  have upper: "map code_unit ''ABCDEFGHIJKLMNOPQRSTUVWXYZ'' = [65 ..< 91]"
    and lower: "map code_unit ''abcdefghijklmnopqrstuvwxyz'' = [97 ..< 123]"
    by (simp_all add: code_unit_def upt_rec)
  have "(c \<in> set ''ABCDEFGHIJKLMNOPQRSTUVWXYZ'')
      = (code_unit c \<in> set (map code_unit ''ABCDEFGHIJKLMNOPQRSTUVWXYZ''))"
    by (simp only: set_map code_unit_mem)
  then have u: "(c \<in> set ''ABCDEFGHIJKLMNOPQRSTUVWXYZ'') = (65 \<le> code_unit c \<and> code_unit c \<le> 90)"
    unfolding upper set_upt atLeastLessThan_iff by arith
  have "(c \<in> set ''abcdefghijklmnopqrstuvwxyz'')
      = (code_unit c \<in> set (map code_unit ''abcdefghijklmnopqrstuvwxyz''))"
    by (simp only: set_map code_unit_mem)
  then have l: "(c \<in> set ''abcdefghijklmnopqrstuvwxyz'') = (97 \<le> code_unit c \<and> code_unit c \<le> 122)"
    unfolding lower set_upt atLeastLessThan_iff by arith
  show ?thesis
    unfolding ascii_letters_def Un_iff u l is_letter_def by blast
qed




section \<open>Splitting and joining\<close>

lemma js_split_not_Nil [simp]: "js_split sep s \<noteq> []"
  by (induction s) (auto split: list.splits)

lemma js_split_append_sep:
  "js_split sep (a @ sep # b) = js_split sep a @ js_split sep b"
  by (induction a) (auto split: list.splits)

lemma js_split_no_sep: "sep \<notin> set a \<Longrightarrow> js_split sep a = [a]"
  by (induction a) auto

lemma js_split_segments: "x \<in> set (js_split sep s) \<Longrightarrow> sep \<notin> set x"
  by (induction s arbitrary: x) (auto split: if_splits list.splits)

lemma js_join_split: "js_join [sep] (js_split sep s) = s"
proof (induction s)
  case Nil
  show ?case by simp
next
  case (Cons c s)
  obtain x xs where sp: "js_split sep s = x # xs"
    by (cases "js_split sep s") auto
  with Cons show ?case
    by (cases xs) auto
qed

lemma js_join_append:
  "xs \<noteq> [] \<Longrightarrow> ys \<noteq> [] \<Longrightarrow> js_join s (xs @ ys) = js_join s xs @ s @ js_join s ys"
proof (induction s xs rule: js_join.induct)
  case (1 sep)
  then show ?case by simp
next
  case (2 sep x)
  then show ?case by (cases ys) auto
next
  case (3 sep x y zs)
  then show ?case by simp
qed


section \<open>The policy engine: paths\<close>

lemma segment_of_split:
  assumes "seg \<in> set (js_split CHR ''/'' p)"
  shows "has_segment seg p"
proof -
  from assms obtain xs ys where sp: "js_split CHR ''/'' p = xs @ seg # ys"
    by (auto simp: in_set_conv_decomp)
  define pre where "pre = (if xs = [] then [] else js_join ''/'' xs @ ''/'')"
  define post where "post = (if ys = [] then [] else ''/'' @ js_join ''/'' ys)"
  have "js_join ''/'' (xs @ seg # ys) = pre @ seg @ post"
  proof (cases "xs = []")
    case True
    then show ?thesis
      by (cases ys) (simp_all add: pre_def post_def)
  next
    case False
    then have "js_join ''/'' (xs @ seg # ys) = js_join ''/'' xs @ ''/'' @ js_join ''/'' (seg # ys)"
      by (simp add: js_join_append)
    with False show ?thesis
      by (cases ys) (simp_all add: pre_def post_def)
  qed
  then have "p = pre @ seg @ post"
    using js_join_split [of "CHR ''/''" p] sp by simp
  moreover have "pre = [] \<or> last pre = CHR ''/''"
    by (simp add: pre_def)
  moreover have "post = [] \<or> hd post = CHR ''/''"
    by (simp add: post_def)
  ultimately show ?thesis
    unfolding has_segment_def by blast
qed

lemma split_of_segment:
  assumes "has_segment seg p" and "CHR ''/'' \<notin> set seg"
  shows "seg \<in> set (js_split CHR ''/'' p)"
proof -
  from assms(1) obtain pre post where p: "p = pre @ seg @ post"
    and pre: "pre = [] \<or> last pre = CHR ''/''"
    and post: "post = [] \<or> hd post = CHR ''/''"
    unfolding has_segment_def by blast
  have tail: "seg \<in> set (js_split CHR ''/'' (seg @ post))"
  proof (cases post)
    case Nil
    with assms(2) show ?thesis by (simp add: js_split_no_sep)
  next
    case (Cons c post')
    with post have "seg @ post = seg @ CHR ''/'' # post'" by simp
    with assms(2) show ?thesis
      by (simp add: js_split_append_sep js_split_no_sep)
  qed
  show ?thesis
  proof (cases "pre = []")
    case True
    with p tail show ?thesis by simp
  next
    case False
    with pre have "pre = butlast pre @ [CHR ''/'']"
      by (metis append_butlast_last_id)
    then have "p = butlast pre @ CHR ''/'' # (seg @ post)"
      using p by (metis append.assoc append_Cons append_Nil)
    then have "js_split CHR ''/'' p = js_split CHR ''/'' (butlast pre) @ js_split CHR ''/'' (seg @ post)"
      by (simp only: js_split_append_sep)
    with tail show ?thesis by simp
  qed
qed

lemma absolute_path_iff:
  "absolute_path n = (startsWith n ''/'' \<or> drive_letter n)"
  by (cases n; cases "tl n")
     (auto simp: absolute_path_def startsWith_def drive_letter_def is_letter_iff split: list.splits)

lemma backslashes_turned_iff: "backslashes_turned p n = (n = replace_backslashes p)"
  by (auto simp: backslashes_turned_def replace_backslashes_def list_eq_iff_nth_eq)

lemma has_segment_iff:
  "CHR ''/'' \<notin> set seg \<Longrightarrow> has_segment seg n = (seg \<in> set (js_split CHR ''/'' n))"
  using segment_of_split [of seg n] split_of_segment [of seg n] by blast

text \<open>
  Claim C6. For every path \<open>p\<close> there is its normalised form \<open>n\<close>, the path with every
  backslash turned into a forward slash and nothing else changed, and
  \<^verbatim>\<open>sanitizePath\<close> rejects \<open>p\<close> when \<open>n\<close> is absolute (a leading slash, or a letter
  and a colon) or has a segment \<^verbatim>\<open>..\<close>, and returns \<open>n\<close> otherwise.
\<close>

theorem sanitizePath_rejects_traversal_and_absolute:
  "\<exists>n. backslashes_turned p n
       \<and> sanitizePath p = (if absolute_path n \<or> has_segment ''..'' n then None else Some n)"
proof -
  have "list_ex (\<lambda>s. s = ''..'') (js_split CHR ''/'' n) = has_segment ''..'' n" for n
    by (simp add: has_segment_iff list_ex_iff)
  then have "sanitizePath p =
      (if absolute_path (replace_backslashes p) \<or> has_segment ''..'' (replace_backslashes p)
       then None else Some (replace_backslashes p))"
    by (simp add: sanitizePath_def absolute_path_iff Let_def)
  moreover have "backslashes_turned p (replace_backslashes p)"
    by (simp add: backslashes_turned_iff)
  ultimately show ?thesis
    by blast
qed

text \<open>
  The theorem at three paths with backslashes: a traversal between backslashes and a path
  with a leading backslash are rejected, and a path whose dots never make up a whole segment
  is returned with its backslash turned.
\<close>

theorem sanitizePath_rejects_traversal_and_absolute_witness:
  "sanitizePath [CHR ''a'', CHR 0x5C, CHR ''.'', CHR ''.'', CHR 0x5C, CHR ''b''] = None
   \<and> sanitizePath [CHR 0x5C, CHR ''e'', CHR ''t'', CHR ''c''] = None
   \<and> sanitizePath [CHR ''s'', CHR ''r'', CHR ''c'', CHR 0x5C, CHR ''a'', CHR ''.'', CHR ''.'', CHR ''b'']
       = Some ''src/a..b''"
proof -
  let ?p1 = "[CHR ''a'', CHR 0x5C, CHR ''.'', CHR ''.'', CHR 0x5C, CHR ''b'']"
  let ?p2 = "[CHR 0x5C, CHR ''e'', CHR ''t'', CHR ''c'']"
  let ?p3 = "[CHR ''s'', CHR ''r'', CHR ''c'', CHR 0x5C, CHR ''a'', CHR ''.'', CHR ''.'', CHR ''b'']"
  have t1: "replace_backslashes ?p1 = ''a/../b''" and t2: "replace_backslashes ?p2 = ''/etc''"
    and t3: "replace_backslashes ?p3 = ''src/a..b''"
    by (simp_all add: replace_backslashes_def)
  have s1: "has_segment ''..'' ''a/../b''"
    by (simp add: has_segment_iff)
  have s2: "absolute_path ''/etc''"
    by (simp add: absolute_path_iff startsWith_def)
  have s3: "\<not> absolute_path ''src/a..b''" "\<not> has_segment ''..'' ''src/a..b''"
    by (simp_all add: has_segment_iff absolute_path_iff startsWith_def drive_letter_def
          is_letter_def code_unit_def)
  from sanitizePath_rejects_traversal_and_absolute [of ?p1]
  obtain n1 where "backslashes_turned ?p1 n1"
    and "sanitizePath ?p1 = (if absolute_path n1 \<or> has_segment ''..'' n1 then None else Some n1)"
    by blast
  then have r1: "sanitizePath ?p1 = None"
    using s1 by (simp only: backslashes_turned_iff t1 simp_thms if_True)
  from sanitizePath_rejects_traversal_and_absolute [of ?p2]
  obtain n2 where "backslashes_turned ?p2 n2"
    and "sanitizePath ?p2 = (if absolute_path n2 \<or> has_segment ''..'' n2 then None else Some n2)"
    by blast
  then have r2: "sanitizePath ?p2 = None"
    using s2 by (simp only: backslashes_turned_iff t2 simp_thms if_True)
  from sanitizePath_rejects_traversal_and_absolute [of ?p3]
  obtain n3 where "backslashes_turned ?p3 n3"
    and "sanitizePath ?p3 = (if absolute_path n3 \<or> has_segment ''..'' n3 then None else Some n3)"
    by blast
  then have r3: "sanitizePath ?p3 = Some ''src/a..b''"
    using s3 by (simp only: backslashes_turned_iff t3 simp_thms if_False)
  from r1 r2 r3 show ?thesis
    by (simp only: simp_thms)
qed

section \<open>The reference parser: the branch\<close>












section \<open>The rate limiter: five checks a window\<close>

lemma check_fresh:
  "m ip = None \<or> (\<exists>e. m ip = Some e \<and> now > resetTime e) \<Longrightarrow>
   checkRateLimit m now ip = (True, m(ip \<mapsto> \<lparr>count = 1, resetTime = now + RATE_LIMIT_WINDOW\<rparr>))"
  by (auto simp: checkRateLimit_def)

lemma check_within:
  "m ip = Some \<lparr>count = c, resetTime = r\<rparr> \<Longrightarrow> now \<le> r \<Longrightarrow>
   checkRateLimit m now ip =
     (if c \<ge> RATE_LIMIT_MAX then (False, m) else (True, m(ip \<mapsto> \<lparr>count = c + 1, resetTime = r\<rparr>)))"
  by (simp add: checkRateLimit_def)

text \<open>
  Claim C8. A client with no entry, or with an entry whose window has expired, checks at
  \<open>t1\<close>; five more checks at times up to \<open>t1 + RATE_LIMIT_WINDOW\<close> follow, then one
  after it. The verdicts are allow five times, deny, allow, and the last check leaves the
  entry with \<open>count = 1\<close> and a new window.
\<close>

theorem rate_limit_five_per_window:
  assumes fresh: "m ip = None \<or> (\<exists>e. m ip = Some e \<and> t1 > resetTime e)"
    and within: "t2 \<le> t1 + RATE_LIMIT_WINDOW" "t3 \<le> t1 + RATE_LIMIT_WINDOW"
      "t4 \<le> t1 + RATE_LIMIT_WINDOW" "t5 \<le> t1 + RATE_LIMIT_WINDOW" "t6 \<le> t1 + RATE_LIMIT_WINDOW"
    and elapsed: "t7 > t1 + RATE_LIMIT_WINDOW"
  shows "fst (checks m ip [t1, t2, t3, t4, t5, t6, t7]) = [True, True, True, True, True, False, True]
       \<and> snd (checks m ip [t1, t2, t3, t4, t5, t6, t7]) ip
           = Some \<lparr>count = 1, resetTime = t7 + RATE_LIMIT_WINDOW\<rparr>"
proof -
  define r where "r = t1 + RATE_LIMIT_WINDOW"
  define m1 where "m1 = m(ip \<mapsto> \<lparr>count = 1, resetTime = r\<rparr>)"
  define m2 where "m2 = m1(ip \<mapsto> \<lparr>count = 2, resetTime = r\<rparr>)"
  define m3 where "m3 = m2(ip \<mapsto> \<lparr>count = 3, resetTime = r\<rparr>)"
  define m4 where "m4 = m3(ip \<mapsto> \<lparr>count = 4, resetTime = r\<rparr>)"
  define m5 where "m5 = m4(ip \<mapsto> \<lparr>count = 5, resetTime = r\<rparr>)"
  have c1: "checkRateLimit m t1 ip = (True, m1)"
    using check_fresh [of m ip t1] fresh by (simp add: m1_def r_def)
  have c2: "checkRateLimit m1 t2 ip = (True, m2)"
    using check_within [of m1 ip 1 r t2] within
    by (simp add: m1_def m2_def r_def RATE_LIMIT_MAX_def eval_nat_numeral)
  have c3: "checkRateLimit m2 t3 ip = (True, m3)"
    using check_within [of m2 ip 2 r t3] within
    by (simp add: m2_def m3_def r_def RATE_LIMIT_MAX_def eval_nat_numeral)
  have c4: "checkRateLimit m3 t4 ip = (True, m4)"
    using check_within [of m3 ip 3 r t4] within
    by (simp add: m3_def m4_def r_def RATE_LIMIT_MAX_def eval_nat_numeral)
  have c5: "checkRateLimit m4 t5 ip = (True, m5)"
    using check_within [of m4 ip 4 r t5] within
    by (simp add: m4_def m5_def r_def RATE_LIMIT_MAX_def eval_nat_numeral)
  have c6: "checkRateLimit m5 t6 ip = (False, m5)"
    using check_within [of m5 ip 5 r t6] within
    by (simp add: m5_def r_def RATE_LIMIT_MAX_def eval_nat_numeral)
  have "m5 ip = Some \<lparr>count = 5, resetTime = r\<rparr>"
    by (simp add: m5_def)
  with elapsed have "m5 ip = None \<or> (\<exists>e. m5 ip = Some e \<and> t7 > resetTime e)"
    by (simp add: r_def)
  then have c7: "checkRateLimit m5 t7 ip
      = (True, m5(ip \<mapsto> \<lparr>count = 1, resetTime = t7 + RATE_LIMIT_WINDOW\<rparr>))"
    using check_fresh [of m5 ip t7] by simp
  show ?thesis
    by (simp add: c1 c2 c3 c4 c5 c6 c7)
qed

text \<open>
  The theorem at a client whose old window ended at 999 with five requests counted: checks at
  1000, 1001, 2000, 30000, 60999 and 61000 (the window's last instant), then at 61001.
\<close>

theorem rate_limit_five_per_window_witness:
  "fst (checks one_client ''10.0.0.7'' [1000, 1001, 2000, 30000, 60999, 61000, 61001])
     = [True, True, True, True, True, False, True]
   \<and> snd (checks one_client ''10.0.0.7'' [1000, 1001, 2000, 30000, 60999, 61000, 61001]) ''10.0.0.7''
     = Some \<lparr>count = 1, resetTime = 121001\<rparr>"
  using rate_limit_five_per_window [of one_client "''10.0.0.7''" 1000 1001 2000 30000 60999 61000 61001]
  by (simp add: one_client_def RATE_LIMIT_WINDOW_def)

section \<open>The archive extractor: counts\<close>

lemmas extract_defs = extract_entries_def extract_entry_def rootPrefix_def strip_root_def startsWith_def
  sanitizePath_def replace_backslashes_def drive_letter_def is_letter_def is_digit_def code_unit_def
  isBlockedFile_def extname_def basename_def toLowerCase_def BLOCKED_EXTENSIONS_def getMimeType_def
  mimeMap_def skip_def MAX_SINGLE_FILE_BYTES_def MAX_FILE_COUNT_def candidate_def Let_def

lemma small_archive_extracted:
  "extract_entries small_archive =
     \<lparr>files =
        [\<lparr>relativePath = ''README.md'', filename = ''README.md'', buffer = ''# hi'',
          file_size = 4, mimetype = ''text/markdown''\<rparr>,
         \<lparr>relativePath = ''src/app.js'', filename = ''app.js'', buffer = ''1;'',
          file_size = 2, mimetype = ''text/javascript''\<rparr>],
      totalSize = 6, skippedCount = 1\<rparr>"
  by (simp add: small_archive_def extract_defs)

lemma small_archive_candidates:
  "filter (candidate (rootPrefix small_archive)) small_archive = tl small_archive"
  by (simp add: small_archive_def extract_defs)

lemma extract_entry_bound:
  "length (files st) \<le> MAX_FILE_COUNT \<Longrightarrow> length (files (extract_entry root st e)) \<le> MAX_FILE_COUNT"
  by (simp add: extract_entry_def skip_def Let_def split: option.splits)

lemma extract_entry_count:
  "skippedCount (extract_entry root st e) + length (files (extract_entry root st e))
   = skippedCount st + length (files st) + (if candidate root e then 1 else 0)"
  by (simp add: extract_entry_def skip_def candidate_def Let_def split: option.splits)

lemma extract_entry_total:
  "totalSize st = sum_list (map file_size (files st)) \<Longrightarrow>
   totalSize (extract_entry root st e) = sum_list (map file_size (files (extract_entry root st e)))"
  by (simp add: extract_entry_def skip_def Let_def split: option.splits)

lemma foldl_extract_bound:
  "length (files st) \<le> MAX_FILE_COUNT \<Longrightarrow>
   length (files (foldl (extract_entry root) st es)) \<le> MAX_FILE_COUNT"
  by (induction es arbitrary: st) (simp_all add: extract_entry_bound)

lemma foldl_extract_count:
  "skippedCount (foldl (extract_entry root) st es) + length (files (foldl (extract_entry root) st es))
   = skippedCount st + length (files st) + length (filter (candidate root) es)"
  by (induction es arbitrary: st) (simp_all add: extract_entry_count)

lemma foldl_extract_total:
  "totalSize st = sum_list (map file_size (files st)) \<Longrightarrow>
   totalSize (foldl (extract_entry root) st es)
   = sum_list (map file_size (files (foldl (extract_entry root) st es)))"
  by (induction es arbitrary: st) (simp_all add: extract_entry_total)

lemma extract_entries_total:
  "totalSize (extract_entries es) = sum_list (map file_size (files (extract_entries es)))"
  by (simp add: extract_entries_def foldl_extract_total)

text \<open>
  Claim C5. Whatever the archive holds, the extraction admits at most \<open>MAX_FILE_COUNT\<close>
  entries, and \<open>skippedCount\<close> is the number of entries submitted to the checks (every
  entry but the directories and those with no path left) less the number admitted: each
  rejected entry, an entry past the count limit among them, adds exactly one.
\<close>

theorem extraction_bounded_and_counted:
  "length (files (extract_entries es)) \<le> MAX_FILE_COUNT
   \<and> skippedCount (extract_entries es) + length (files (extract_entries es))
       = length (filter (candidate (rootPrefix es)) es)"
  using foldl_extract_bound [of "\<lparr>files = [], totalSize = 0, skippedCount = 0\<rparr>" "rootPrefix es" es]
    foldl_extract_count [of "rootPrefix es" "\<lparr>files = [], totalSize = 0, skippedCount = 0\<rparr>" es]
  by (simp add: extract_entries_def)

text \<open>
  The theorem at the small archive: three entries are submitted to the checks, two are
  admitted, so one is counted as skipped.
\<close>

theorem extraction_bounded_and_counted_witness:
  "length (files (extract_entries small_archive)) = 2
   \<and> length (filter (candidate (rootPrefix small_archive)) small_archive) = 3
   \<and> skippedCount (extract_entries small_archive) = 1"
proof -
  have admitted: "length (files (extract_entries small_archive)) = 2"
    by (simp add: small_archive_extracted)
  have submitted: "length (filter (candidate (rootPrefix small_archive)) small_archive) = 3"
    by (simp add: small_archive_candidates) (simp add: small_archive_def)
  from extraction_bounded_and_counted [of small_archive] admitted submitted show ?thesis
    by simp
qed

section \<open>The remote fetcher: redirects\<close>

lemma fetchBuffer_conn:
  "nw u = ConnError \<Longrightarrow> fetchBuffer nw cap u = Some (Inl RequestError)"
  by (subst fetchBuffer.simps) simp

lemma fetchBuffer_redirect:
  "nw u = Reply st loc chunks ended \<Longrightarrow> redirect_target st loc = Some t \<Longrightarrow>
   fetchBuffer nw cap u = fetchBuffer nw cap t"
  by (subst fetchBuffer.simps) simp

lemma fetchBuffer_final:
  "nw u = Reply st loc chunks ended \<Longrightarrow> redirect_target st loc = None \<Longrightarrow>
   fetchBuffer nw cap u =
     Some (if st \<noteq> 200 then Inl (HTTPStatus st) else on_data cap 0 [] chunks ended)"
  by (subst fetchBuffer.simps) simp

text \<open>
  Claim C3, as amended. On a response with a status from 300 to 399 and a non-empty
  \<^verbatim>\<open>Location\<close> header, the binary fetch is the fetch of the redirect target, and the
  JSON fetch fails with the HTTP status error.
\<close>

theorem binary_fetch_follows_redirects_json_fetch_fails:
  assumes "nw u = Reply st (Some l) chunks ended" and "300 \<le> st" and "st < 400" and "l \<noteq> []"
  shows "fetchBuffer nw cap u = fetchBuffer nw cap l
       \<and> fetchJson nw parse u = Inl (HTTPStatus st)"
proof
  have "redirect_target st (Some l) = Some l"
    using assms by (simp add: redirect_target_def)
  with assms(1) show "fetchBuffer nw cap u = fetchBuffer nw cap l"
    by (rule fetchBuffer_redirect)
  show "fetchJson nw parse u = Inl (HTTPStatus st)"
    using assms by (simp add: fetchJson_def)
qed

text \<open>
  The theorem at the renamed repository: the binary fetch of the old name delivers the body
  found at the new location, the JSON fetch of the old name fails with status 301.
\<close>

theorem binary_fetch_follows_redirects_json_fetch_fails_witness:
  "fetchBuffer renamed_net 1024 ''https://api.github.com/repos/old/name'' = Some (Inr ''{}'')
   \<and> fetchJson renamed_net (JSON_parse demo_world) ''https://api.github.com/repos/old/name''
       = Inl (HTTPStatus 301)"
proof -
  have reply: "renamed_net ''https://api.github.com/repos/old/name''
      = Reply 301 (Some ''https://api.github.com/repositories/1'') [] True"
    by (simp add: renamed_net_def)
  have target: "fetchBuffer renamed_net 1024 ''https://api.github.com/repositories/1'' = Some (Inr ''{}'')"
    by (subst fetchBuffer.simps) (simp add: renamed_net_def redirect_target_def)
  from binary_fetch_follows_redirects_json_fetch_fails
    [where nw = renamed_net and u = "''https://api.github.com/repos/old/name''" and st = 301
      and l = "''https://api.github.com/repositories/1''" and chunks = "[]" and ended = True
      and cap = 1024 and parse = "JSON_parse demo_world"]
    reply target
  show ?thesis
    by simp
qed

text \<open>
  Claim C3 as stated fails for the JSON fetch: the old name answers 301 with a
  \<^verbatim>\<open>Location\<close> header, the JSON fetch of that location succeeds, and the JSON fetch of
  the old name does not yield what the fetch of the location yields.
\<close>

theorem json_fetch_follows_redirects_counterexample:
  "renamed_net ''https://api.github.com/repos/old/name''
     = Reply 301 (Some ''https://api.github.com/repositories/1'') [] True
   \<and> fetchJson renamed_net (JSON_parse demo_world) ''https://api.github.com/repositories/1''
       = Inr (JObject no_meta)
   \<and> fetchJson renamed_net (JSON_parse demo_world) ''https://api.github.com/repos/old/name''
       \<noteq> fetchJson renamed_net (JSON_parse demo_world) ''https://api.github.com/repositories/1''"
  by (simp add: renamed_net_def fetchJson_def demo_world_def no_meta_def)

section \<open>The bulk uploader: effects and results\<close>

lemma await_batches_step:
  "i < length ps \<Longrightarrow>
   await_batches i ps acc =
     await_batches (i + BATCH_SIZE) ps
       (fst acc @ [Awaited [i ..< i + length (take BATCH_SIZE (drop i ps))]],
        snd acc @ map the (filter (\<lambda>r. r \<noteq> None) (take BATCH_SIZE (drop i ps))))"
  by (subst await_batches.simps) (simp add: Let_def)

lemma await_batches_stop: "\<not> i < length ps \<Longrightarrow> await_batches i ps acc = acc"
  by (subst await_batches.simps) simp

lemma await_batches_results:
  "snd (await_batches i ps acc) = snd acc @ map the (filter (\<lambda>r. r \<noteq> None) (drop i ps))"
proof (induction i ps acc rule: await_batches.induct)
  case (1 i ps acc)
  show ?case
  proof (cases "i < length ps")
    case False
    then show ?thesis by (simp add: await_batches_stop)
  next
    case True
    have "filter (\<lambda>r. r \<noteq> None) (drop i ps)
        = filter (\<lambda>r. r \<noteq> None) (take BATCH_SIZE (drop i ps) @ drop BATCH_SIZE (drop i ps))"
      by (simp only: append_take_drop_id)
    then have split: "filter (\<lambda>r. r \<noteq> None) (drop i ps)
        = filter (\<lambda>r. r \<noteq> None) (take BATCH_SIZE (drop i ps))
          @ filter (\<lambda>r. r \<noteq> None) (drop (i + BATCH_SIZE) ps)"
      by (simp add: add.commute)
    have "snd (await_batches i ps acc)
        = (snd acc @ map the (filter (\<lambda>r. r \<noteq> None) (take BATCH_SIZE (drop i ps))))
          @ map the (filter (\<lambda>r. r \<noteq> None) (drop (i + BATCH_SIZE) ps))"
      using "1.IH" [OF True refl] True by (simp add: await_batches_step)
    with split show ?thesis by simp
  qed
qed

lemma upt_shift: "[i ..< i + Suc n] = i # [Suc i ..< Suc i + n]"
  by (simp add: upt_conv_Cons)

lemma uploadPromises_events:
  "fst (uploadPromises w i fs) = map Issued [i ..< i + length fs]"
proof (induction fs arbitrary: i)
  case Nil
  show ?case by simp
next
  case (Cons f fs)
  have "fst (uploadPromises w i (f # fs)) = Issued i # fst (uploadPromises w (Suc i) fs)"
    by (simp split: prod.splits)
  also have "\<dots> = Issued i # map Issued [Suc i ..< Suc i + length fs]"
    by (simp only: Cons.IH)
  also have "\<dots> = map Issued [i ..< i + length (f # fs)]"
    by (simp only: upt_shift list.map length_Cons)
  finally show ?case .
qed

lemma uploadPromises_results:
  "snd (uploadPromises w i fs) = map (\<lambda>(k, f). upload_one w k f) (zip [i ..< i + length fs] fs)"
proof (induction fs arbitrary: i)
  case Nil
  show ?case by simp
next
  case (Cons f fs)
  have "snd (uploadPromises w i (f # fs)) = upload_one w i f # snd (uploadPromises w (Suc i) fs)"
    by (simp split: prod.splits)
  also have "\<dots> = upload_one w i f
      # map (\<lambda>(k, f). upload_one w k f) (zip [Suc i ..< Suc i + length fs] fs)"
    by (simp only: Cons.IH)
  also have "\<dots> = map (\<lambda>(k, f). upload_one w k f) (zip [i ..< i + length (f # fs)] (f # fs))"
    by (simp only: upt_shift length_Cons) simp
  finally show ?case .
qed

lemma await_batches_events:
  "\<exists>awaits. fst (await_batches i ps acc) = fst acc @ map Awaited awaits"
proof (induction i ps acc rule: await_batches.induct)
  case (1 i ps acc)
  show ?case
  proof (cases "i < length ps")
    case False
    then have "fst (await_batches i ps acc) = fst acc @ map Awaited []"
      by (simp add: await_batches_stop)
    then show ?thesis by blast
  next
    case True
    from "1.IH" [OF True refl] obtain awaits where
      "fst (await_batches i ps acc)
        = (fst acc @ [Awaited [i ..< i + length (take BATCH_SIZE (drop i ps))]]) @ map Awaited awaits"
      using True by (auto simp: await_batches_step)
    then have "fst (await_batches i ps acc)
        = fst acc @ map Awaited ([i ..< i + length (take BATCH_SIZE (drop i ps))] # awaits)"
      by simp
    then show ?thesis by blast
  qed
qed

section \<open>The bulk uploader: when the uploads are issued\<close>

text \<open>In every run of the upload stage, each upload is issued before the first batch is awaited.\<close>

lemma upload_all_events:
  "\<exists>awaits. fst (upload_all w fs) = map Issued [0 ..< length fs] @ map Awaited awaits"
proof -
  have "upload_all w fs
      = await_batches 0 (snd (uploadPromises w 0 fs)) (fst (uploadPromises w 0 fs), [])"
    by (simp add: upload_all_def case_prod_beta)
  then show ?thesis
    using await_batches_events [of 0 "snd (uploadPromises w 0 fs)" "(fst (uploadPromises w 0 fs), [])"]
    by (simp add: uploadPromises_events)
qed

text \<open>
  Claim C4, at eleven admitted files. The batches are awaited ten promises at a time and one
  after the other, but the upload of the file at index 10, which belongs to the second batch,
  is issued before the handler first suspends to await the first batch: the uploads of the
  second batch do not wait for the first batch to complete.
\<close>

theorem eleventh_upload_issued_before_first_batch_settles:
  "fst (upload_all demo_world eleven_files) =
     [Issued 0, Issued 1, Issued 2, Issued 3, Issued 4, Issued 5, Issued 6, Issued 7, Issued 8,
      Issued 9, Issued 10,
      Awaited [0, 1, 2, 3, 4, 5, 6, 7, 8, 9], Awaited [10]]"
  by (simp add: eleven_files_def upload_all_def await_batches_step await_batches_stop BATCH_SIZE_def
        upt_rec [of _ "numeral n" for n] split: prod.splits)

section \<open>The import route: its stages\<close>

lemma download_archive_first:
  "fetchBuffer (net w) (MAX_REPO_SIZE_BYTES (env_MAX_REPO_SIZE_MB w)) (zipUrl own rep br) = Some (Inr zipBuffer) \<Longrightarrow>
   download_archive w own rep br = Some ([zipUrl own rep br], Inr zipBuffer)"
  by (simp add: download_archive_def)

lemma download_archive_other:
  "fetchBuffer (net w) (MAX_REPO_SIZE_BYTES (env_MAX_REPO_SIZE_MB w)) (zipUrl own rep br) = Some (Inl e) \<Longrightarrow>
   br \<noteq> ''main'' \<Longrightarrow>
   download_archive w own rep br = Some ([zipUrl own rep br], Inl (Failure 404 (BranchNotFound br)))"
  by (simp add: download_archive_def)

lemma download_archive_main:
  "fetchBuffer (net w) (MAX_REPO_SIZE_BYTES (env_MAX_REPO_SIZE_MB w)) (zipUrl own rep ''main'') = Some (Inl e) \<Longrightarrow>
   download_archive w own rep ''main'' =
     map_option
       (\<lambda>r. ([zipUrl own rep ''main'', masterUrl own rep],
             case r of
               Inl e2 \<Rightarrow> Inl (Failure 404 (BranchNotFoundTrySpecifying ''main''))
             | Inr zipBuffer \<Rightarrow> Inr zipBuffer))
       (fetchBuffer (net w) (MAX_REPO_SIZE_BYTES (env_MAX_REPO_SIZE_MB w)) (masterUrl own rep))"
  by (simp add: download_archive_def split: option.splits sum.splits)

lemma import_repo_archive:
  assumes "fetchJson (net w) (JSON_parse w) (apiUrl own rep) = Inr (JObject meta)"
    and "int (or_default (size_kb meta) 0 * 1024) \<le> MAX_REPO_SIZE_BYTES (env_MAX_REPO_SIZE_MB w)"
  shows "import_repo w own rep br =
     map_option
       (\<lambda>(urls, res).
          case res of
            Inl resp \<Rightarrow> (apiUrl own rep # urls, [], resp)
          | Inr zipBuffer \<Rightarrow> (apiUrl own rep # urls, import_archive w own rep br meta zipBuffer))
       (download_archive w own rep br)"
  using assms by (simp add: import_repo_def split: option.splits sum.splits prod.splits)

lemma import_route_repo:
  assumes "checkRateLimit m now (clientIp req) = (True, m')"
    and "body req = Some b" and "repoUrl b = Some u" and "u \<noteq> []"
    and "parseGitHubUrl u = Some parsed"
  shows "import_route w m now req =
     map_option
       (\<lambda>(urls, evs, r). \<lparr>response = r, rateLimitMap = m', fetched = urls, uploads = evs\<rparr>)
       (import_repo w (owner parsed) (repo parsed) (effective_branch (requestedBranch b) parsed))"
  using assms by (simp add: import_route_def or_default_def split: option.splits prod.splits)

lemma import_files_branch:
  "import_files w own rep br meta ex = (evs, Created r) \<Longrightarrow> info_branch (res_repoInfo r) = br"
  by (auto simp: import_files_def Let_def split: option.splits prod.splits if_splits)

lemma import_archive_branch:
  "import_archive w own rep br meta zipBuffer = (evs, Created r) \<Longrightarrow> info_branch (res_repoInfo r) = br"
  by (auto simp: import_archive_def Let_def import_files_branch split: option.splits if_splits)



lemma upload_all_results:
  "snd (upload_all w fs) = map the (filter (\<lambda>r. r \<noteq> None) (snd (uploadPromises w 0 fs)))"
  by (simp add: upload_all_def await_batches_results split: prod.splits)

lemma upload_all_count:
  "length (snd (upload_all w fs)) + failed_uploads w fs = length fs"
proof -
  have "length (snd (uploadPromises w 0 fs)) = length fs"
    by (simp add: uploadPromises_results)
  moreover have "length (filter (\<lambda>r. r \<noteq> None) (snd (uploadPromises w 0 fs)))
      + length (filter (\<lambda>r. r = None) (snd (uploadPromises w 0 fs)))
      = length (snd (uploadPromises w 0 fs))"
    using sum_length_filter_compl [of "\<lambda>r. r \<noteq> None" "snd (uploadPromises w 0 fs)"] by simp
  ultimately show ?thesis
    by (simp add: upload_all_results failed_uploads_def)
qed


section \<open>The demonstration world, evaluated\<close>

lemma demo_cap: "MAX_REPO_SIZE_BYTES (env_MAX_REPO_SIZE_MB demo_world) = 104857600"
  by (simp add: demo_world_def MAX_REPO_SIZE_BYTES_def MAX_REPO_SIZE_MB_def)

lemma demo_parse:
  "parseGitHubUrl ''https://github.com/octocat/repo''
     = Some \<lparr>owner = ''octocat'', repo = ''repo'', branch = ''main''\<rparr>"
  by code_simp

lemma demo_rate:
  "checkRateLimit Map.empty 1000 ''10.0.0.7''
     = (True, [''10.0.0.7'' \<mapsto> \<lparr>count = 1, resetTime = 61000\<rparr>])"
  by (simp add: checkRateLimit_def RATE_LIMIT_WINDOW_def)

lemma demo_meta:
  "fetchJson (net demo_world) (JSON_parse demo_world) (apiUrl ''octocat'' ''repo'')
     = Inr (JObject no_meta)"
  by (simp add: fetchJson_def demo_world_def demo_net_def apiUrl_def no_meta_def)

lemma demo_main:
  "fetchBuffer (net demo_world) 104857600 (zipUrl ''octocat'' ''repo'' ''main'')
     = Some (Inl (HTTPStatus 404))"
  by (subst fetchBuffer.simps) (simp add: demo_world_def demo_net_def zipUrl_def redirect_target_def)

lemma demo_codeload:
  "fetchBuffer (net demo_world) 104857600 ''https://codeload.github.com/octocat/repo/zip/refs/heads/master''
     = Some (Inr ''PKzip'')"
  by (subst fetchBuffer.simps) (simp add: demo_world_def demo_net_def redirect_target_def)

lemma demo_master:
  "fetchBuffer (net demo_world) 104857600 (masterUrl ''octocat'' ''repo'') = Some (Inr ''PKzip'')"
  by (subst fetchBuffer.simps)
     (simp add: demo_world_def demo_net_def masterUrl_def redirect_target_def demo_codeload [simplified demo_world_def, simplified])

lemma demo_uploads:
  "upload_all demo_world (files (extract_entries small_archive))
     = ([Issued 0, Issued 1, Awaited [0, 1]],
        [\<lparr>up_filename = ''kabada-uploads/1700000000000-42-README'',
          up_originalName = ''README.md'', up_mimetype = ''text/markdown'', up_size = 4,
          up_path = ''https://cdn/1700000000000-42-README'',
          up_publicId = ''kabada-uploads/1700000000000-42-README'',
          up_resourceType = ''raw'', up_relativePath = ''README.md''\<rparr>])"
  by (simp add: small_archive_extracted upload_all_def await_batches_step await_batches_stop
        BATCH_SIZE_def upload_one_def uploadToCloudinary_def demo_world_def sanitizedName_def
        strip_extension_def is_letter_def is_digit_def code_unit_def)

lemma demo_archive:
  "import_archive demo_world ''octocat'' ''repo'' br no_meta ''PKzip''
     = ([Issued 0, Issued 1, Awaited [0, 1]],
        Created
          \<lparr>res_containerId = ''65f0'', res_containerName = ''gh-octocat-repo'',
           res_password = ''a1b2c3d4e5f6'', res_sandboxUrl = ''#/sandbox/65f0'',
           res_fileCount = 1, res_skippedCount = 1, res_totalSize = 6,
           res_repoInfo =
             \<lparr>info_owner = ''octocat'', info_repo = ''repo'', info_branch = br,
              info_description = [], info_stars = 0, info_language = []\<rparr>\<rparr>)"
proof -
  have a: "AdmZip demo_world ''PKzip'' = Some small_archive"
    by (simp add: demo_world_def)
  have b: "findOne demo_world ''gh-octocat-repo'' = Some False" "save demo_world"
    "randomBytes6 demo_world = ''a1b2c3d4e5f6''" "container_id demo_world = ''65f0''"
    by (simp_all add: demo_world_def)
  show ?thesis
    unfolding import_archive_def import_files_def a Let_def
    by (simp add: demo_uploads b) (simp add: small_archive_extracted no_meta_def or_default_def)
qed

lemma demo_route_default:
  "import_route demo_world Map.empty 1000 request_default =
     Some \<lparr>response = Created
              \<lparr>res_containerId = ''65f0'', res_containerName = ''gh-octocat-repo'',
               res_password = ''a1b2c3d4e5f6'', res_sandboxUrl = ''#/sandbox/65f0'',
               res_fileCount = 1, res_skippedCount = 1, res_totalSize = 6,
               res_repoInfo =
                 \<lparr>info_owner = ''octocat'', info_repo = ''repo'', info_branch = ''main'',
                  info_description = [], info_stars = 0, info_language = []\<rparr>\<rparr>,
           rateLimitMap = [''10.0.0.7'' \<mapsto> \<lparr>count = 1, resetTime = 61000\<rparr>],
           fetched = [apiUrl ''octocat'' ''repo'', zipUrl ''octocat'' ''repo'' ''main'',
                      masterUrl ''octocat'' ''repo''],
           uploads = [Issued 0, Issued 1, Awaited [0, 1]]\<rparr>"
proof -
  have rate: "checkRateLimit Map.empty 1000 (clientIp request_default)
      = (True, [''10.0.0.7'' \<mapsto> \<lparr>count = 1, resetTime = 61000\<rparr>])"
    by (simp add: request_default_def demo_rate)
  have bd: "body request_default
      = Some \<lparr>repoUrl = Some ''https://github.com/octocat/repo'', requestedBranch = None\<rparr>"
    by (simp add: request_default_def)
  have dl: "download_archive demo_world ''octocat'' ''repo'' ''main''
      = Some ([zipUrl ''octocat'' ''repo'' ''main'', masterUrl ''octocat'' ''repo''], Inr ''PKzip'')"
    using download_archive_main [of demo_world "''octocat''" "''repo''" "HTTPStatus 404"]
    by (simp add: demo_cap demo_main demo_master)
  have rp: "import_repo demo_world ''octocat'' ''repo'' ''main''
      = Some (apiUrl ''octocat'' ''repo'' # [zipUrl ''octocat'' ''repo'' ''main'', masterUrl ''octocat'' ''repo''],
              import_archive demo_world ''octocat'' ''repo'' ''main'' no_meta ''PKzip'')"
    using import_repo_archive [of demo_world "''octocat''" "''repo''" no_meta "''main''"]
    by (simp add: demo_meta dl demo_cap) (simp add: no_meta_def or_default_def)
  show ?thesis
    using import_route_repo [where w = demo_world, OF rate bd _ _ demo_parse]
    by (simp add: effective_branch_def rp demo_archive)
qed

lemma demo_route_main:
  "import_route demo_world Map.empty 1000 request_main =
     Some \<lparr>response = Created
              \<lparr>res_containerId = ''65f0'', res_containerName = ''gh-octocat-repo'',
               res_password = ''a1b2c3d4e5f6'', res_sandboxUrl = ''#/sandbox/65f0'',
               res_fileCount = 1, res_skippedCount = 1, res_totalSize = 6,
               res_repoInfo =
                 \<lparr>info_owner = ''octocat'', info_repo = ''repo'', info_branch = ''main'',
                  info_description = [], info_stars = 0, info_language = []\<rparr>\<rparr>,
           rateLimitMap = [''10.0.0.7'' \<mapsto> \<lparr>count = 1, resetTime = 61000\<rparr>],
           fetched = [apiUrl ''octocat'' ''repo'', zipUrl ''octocat'' ''repo'' ''main'',
                      masterUrl ''octocat'' ''repo''],
           uploads = [Issued 0, Issued 1, Awaited [0, 1]]\<rparr>"
proof -
  have rate: "checkRateLimit Map.empty 1000 (clientIp request_main)
      = (True, [''10.0.0.7'' \<mapsto> \<lparr>count = 1, resetTime = 61000\<rparr>])"
    by (simp add: request_main_def demo_rate)
  have bd: "body request_main
      = Some \<lparr>repoUrl = Some ''https://github.com/octocat/repo'', requestedBranch = Some ''main''\<rparr>"
    by (simp add: request_main_def)
  have dl: "download_archive demo_world ''octocat'' ''repo'' ''main''
      = Some ([zipUrl ''octocat'' ''repo'' ''main'', masterUrl ''octocat'' ''repo''], Inr ''PKzip'')"
    using download_archive_main [of demo_world "''octocat''" "''repo''" "HTTPStatus 404"]
    by (simp add: demo_cap demo_main demo_master)
  have rp: "import_repo demo_world ''octocat'' ''repo'' ''main''
      = Some (apiUrl ''octocat'' ''repo'' # [zipUrl ''octocat'' ''repo'' ''main'', masterUrl ''octocat'' ''repo''],
              import_archive demo_world ''octocat'' ''repo'' ''main'' no_meta ''PKzip'')"
    using import_repo_archive [of demo_world "''octocat''" "''repo''" no_meta "''main''"]
    by (simp add: demo_meta dl demo_cap) (simp add: no_meta_def or_default_def)
  show ?thesis
    using import_route_repo [where w = demo_world, OF rate bd _ _ demo_parse]
    by (simp add: effective_branch_def rp demo_archive)
qed

lemma demo_odd:
  "fetchBuffer (net demo_world) 104857600 (zipUrl ''octocat'' ''repo'' ''../x y?z'')
     = Some (Inl RequestError)"
  by (subst fetchBuffer.simps) (simp add: demo_world_def demo_net_def zipUrl_def)





section \<open>The import route: the branch reported after the fallback\<close>

text \<open>
  Claim C1, as amended. No branch is requested (the body has none, or an empty one) and the
  locator parses with the derived branch \<^verbatim>\<open>main\<close>; the rate limiter allows the call, the
  metadata is fetched and passes the size gate; the archive of \<^verbatim>\<open>main\<close> fails and
  that of \<^verbatim>\<open>master\<close> is fetched. Then the route answers: it has fetched the
  metadata and both archives, its response is that of steps 4 to 7 on the archive of
  \<^verbatim>\<open>master\<close>, and every 201 response reports the branch \<^verbatim>\<open>main\<close>.
\<close>

theorem fallback_reports_derived_branch:
  assumes rate: "checkRateLimit m now (clientIp req) = (True, m')"
    and bd: "body req = Some b" "repoUrl b = Some u" "u \<noteq> []"
    and unspecified: "requestedBranch b = None \<or> requestedBranch b = Some []"
    and parsed: "parseGitHubUrl u = Some parsed" "branch parsed = ''main''"
    and meta: "fetchJson (net w) (JSON_parse w) (apiUrl (owner parsed) (repo parsed)) = Inr (JObject meta)"
    and small: "int (or_default (size_kb meta) 0 * 1024) \<le> MAX_REPO_SIZE_BYTES (env_MAX_REPO_SIZE_MB w)"
    and main_fails: "fetchBuffer (net w) (MAX_REPO_SIZE_BYTES (env_MAX_REPO_SIZE_MB w))
        (zipUrl (owner parsed) (repo parsed) ''main'') = Some (Inl e)"
    and master_ok: "fetchBuffer (net w) (MAX_REPO_SIZE_BYTES (env_MAX_REPO_SIZE_MB w))
        (masterUrl (owner parsed) (repo parsed)) = Some (Inr zipBuffer)"
  shows "import_route w m now req =
           Some \<lparr>response = snd (import_archive w (owner parsed) (repo parsed) ''main'' meta zipBuffer),
                 rateLimitMap = m',
                 fetched = [apiUrl (owner parsed) (repo parsed),
                            zipUrl (owner parsed) (repo parsed) ''main'',
                            masterUrl (owner parsed) (repo parsed)],
                 uploads = fst (import_archive w (owner parsed) (repo parsed) ''main'' meta zipBuffer)\<rparr>
       \<and> (\<forall>r. snd (import_archive w (owner parsed) (repo parsed) ''main'' meta zipBuffer) = Created r
              \<longrightarrow> info_branch (res_repoInfo r) = ''main'')"
proof
  have br: "effective_branch (requestedBranch b) parsed = ''main''"
    using unspecified parsed(2) by (auto simp: effective_branch_def)
  have dl: "download_archive w (owner parsed) (repo parsed) ''main''
      = Some ([zipUrl (owner parsed) (repo parsed) ''main'', masterUrl (owner parsed) (repo parsed)],
              Inr zipBuffer)"
    using download_archive_main [OF main_fails] master_ok by simp
  have "import_repo w (owner parsed) (repo parsed) ''main''
      = Some (apiUrl (owner parsed) (repo parsed)
                # [zipUrl (owner parsed) (repo parsed) ''main'', masterUrl (owner parsed) (repo parsed)],
              import_archive w (owner parsed) (repo parsed) ''main'' meta zipBuffer)"
    using import_repo_archive [OF meta small, of "''main''"] dl by simp
  then show "import_route w m now req =
           Some \<lparr>response = snd (import_archive w (owner parsed) (repo parsed) ''main'' meta zipBuffer),
                 rateLimitMap = m',
                 fetched = [apiUrl (owner parsed) (repo parsed),
                            zipUrl (owner parsed) (repo parsed) ''main'',
                            masterUrl (owner parsed) (repo parsed)],
                 uploads = fst (import_archive w (owner parsed) (repo parsed) ''main'' meta zipBuffer)\<rparr>"
    using import_route_repo [OF rate bd parsed(1), of w] br
    by (simp add: case_prod_beta)
  show "\<forall>r. snd (import_archive w (owner parsed) (repo parsed) ''main'' meta zipBuffer) = Created r
              \<longrightarrow> info_branch (res_repoInfo r) = ''main''"
    using import_archive_branch [of w "owner parsed" "repo parsed" "''main''" meta zipBuffer]
    by (metis prod.collapse)
qed

text \<open>
  The theorem in the demonstration world, for the request that names no branch: the import
  completes with status 201, and its \<^verbatim>\<open>repoInfo\<close> holds the branch \<^verbatim>\<open>main\<close>.
\<close>

theorem fallback_reports_derived_branch_witness:
  "import_route demo_world Map.empty 1000 request_default =
     Some \<lparr>response = Created
              \<lparr>res_containerId = ''65f0'', res_containerName = ''gh-octocat-repo'',
               res_password = ''a1b2c3d4e5f6'', res_sandboxUrl = ''#/sandbox/65f0'',
               res_fileCount = 1, res_skippedCount = 1, res_totalSize = 6,
               res_repoInfo =
                 \<lparr>info_owner = ''octocat'', info_repo = ''repo'', info_branch = ''main'',
                  info_description = [], info_stars = 0, info_language = []\<rparr>\<rparr>,
           rateLimitMap = [''10.0.0.7'' \<mapsto> \<lparr>count = 1, resetTime = 61000\<rparr>],
           fetched = [apiUrl ''octocat'' ''repo'', zipUrl ''octocat'' ''repo'' ''main'',
                      masterUrl ''octocat'' ''repo''],
           uploads = [Issued 0, Issued 1, Awaited [0, 1]]\<rparr>"
proof -
  let ?p = "\<lparr>owner = ''octocat'', repo = ''repo'', branch = ''main''\<rparr>"
  let ?b = "\<lparr>repoUrl = Some ''https://github.com/octocat/repo'', requestedBranch = None\<rparr>"
  have rate: "checkRateLimit Map.empty 1000 (clientIp request_default)
      = (True, [''10.0.0.7'' \<mapsto> \<lparr>count = 1, resetTime = 61000\<rparr>])"
    by (simp add: request_default_def demo_rate)
  have bd: "body request_default = Some ?b" "repoUrl ?b = Some ''https://github.com/octocat/repo''"
    "''https://github.com/octocat/repo'' \<noteq> []"
    "requestedBranch ?b = None \<or> requestedBranch ?b = Some []"
    by (simp_all add: request_default_def)
  have parsed: "parseGitHubUrl ''https://github.com/octocat/repo'' = Some ?p" "branch ?p = ''main''"
    by (simp_all add: demo_parse)
  have meta: "fetchJson (net demo_world) (JSON_parse demo_world) (apiUrl (owner ?p) (repo ?p))
      = Inr (JObject no_meta)"
    by (simp add: demo_meta)
  have small: "int (or_default (size_kb no_meta) 0 * 1024)
      \<le> MAX_REPO_SIZE_BYTES (env_MAX_REPO_SIZE_MB demo_world)"
    by (simp add: demo_cap no_meta_def or_default_def)
  have main_fails: "fetchBuffer (net demo_world) (MAX_REPO_SIZE_BYTES (env_MAX_REPO_SIZE_MB demo_world))
      (zipUrl (owner ?p) (repo ?p) ''main'') = Some (Inl (HTTPStatus 404))"
    by (simp add: demo_cap demo_main)
  have master_ok: "fetchBuffer (net demo_world) (MAX_REPO_SIZE_BYTES (env_MAX_REPO_SIZE_MB demo_world))
      (masterUrl (owner ?p) (repo ?p)) = Some (Inr ''PKzip'')"
    by (simp add: demo_cap demo_master)
  from fallback_reports_derived_branch [OF rate bd parsed meta small main_fails master_ok]
  show ?thesis
    by (simp add: demo_archive)
qed

text \<open>
  Claim C1 as stated fails there: no branch is requested, the archive of \<^verbatim>\<open>main\<close>
  answers 404, the archive of \<^verbatim>\<open>master\<close> is fetched, the import completes, and the
  branch it reports is not \<^verbatim>\<open>master\<close>.
\<close>

theorem fallback_reports_master_counterexample:
  "requestedBranch (the (body request_default)) = None
   \<and> fetchBuffer (net demo_world) 104857600 (zipUrl ''octocat'' ''repo'' ''main'') = Some (Inl (HTTPStatus 404))
   \<and> fetchBuffer (net demo_world) 104857600 (masterUrl ''octocat'' ''repo'') = Some (Inr ''PKzip'')
   \<and> reported_branch (import_route demo_world Map.empty 1000 request_default) = Some ''main''
   \<and> reported_branch (import_route demo_world Map.empty 1000 request_default) \<noteq> Some ''master''"
proof -
  have "requestedBranch (the (body request_default)) = None"
    by (simp add: request_default_def)
  then show ?thesis
    by (simp add: demo_main demo_master demo_route_default reported_branch_def)
qed

section \<open>The import route: when the fallback is tried\<close>

text \<open>
  Claim C2, as amended. The rate limiter allows the call, the locator parses, the metadata is
  fetched and passes the size gate, and the first archive fetch, for the branch the route
  settled on (the requested one, else the parsed one), fails. When that branch is not the
  string \<^verbatim>\<open>main\<close>, the route answers 404 with the branch-not-found error, having
  fetched the metadata and that one archive only. When it is \<^verbatim>\<open>main\<close>, whether
  derived or requested, the route fetches the archive of \<^verbatim>\<open>master\<close> next, once: if
  that fetch settles, the URLs fetched are the metadata and the two archives.
\<close>

theorem fallback_iff_branch_is_main:
  assumes rate: "checkRateLimit m now (clientIp req) = (True, m')"
    and bd: "body req = Some b" "repoUrl b = Some u" "u \<noteq> []"
    and parsed: "parseGitHubUrl u = Some parsed"
    and meta: "fetchJson (net w) (JSON_parse w) (apiUrl (owner parsed) (repo parsed)) = Inr (JObject meta)"
    and small: "int (or_default (size_kb meta) 0 * 1024) \<le> MAX_REPO_SIZE_BYTES (env_MAX_REPO_SIZE_MB w)"
    and br: "br = effective_branch (requestedBranch b) parsed"
    and first_fails: "fetchBuffer (net w) (MAX_REPO_SIZE_BYTES (env_MAX_REPO_SIZE_MB w))
        (zipUrl (owner parsed) (repo parsed) br) = Some (Inl e)"
  shows "(br \<noteq> ''main'' \<longrightarrow>
            import_route w m now req =
              Some \<lparr>response = Failure 404 (BranchNotFound br), rateLimitMap = m',
                    fetched = [apiUrl (owner parsed) (repo parsed),
                               zipUrl (owner parsed) (repo parsed) br],
                    uploads = []\<rparr>)
       \<and> (br = ''main'' \<longrightarrow>
            map_option fetched (import_route w m now req) =
              map_option
                (\<lambda>settled. [apiUrl (owner parsed) (repo parsed),
                            zipUrl (owner parsed) (repo parsed) br,
                            masterUrl (owner parsed) (repo parsed)])
                (fetchBuffer (net w) (MAX_REPO_SIZE_BYTES (env_MAX_REPO_SIZE_MB w))
                   (masterUrl (owner parsed) (repo parsed))))"
proof (intro conjI impI)
  note route = import_route_repo [OF rate bd parsed, of w, folded br]
  note stage = import_repo_archive [OF meta small, of br]
  {
    assume other: "br \<noteq> ''main''"
    have "import_repo w (owner parsed) (repo parsed) br
        = Some ([apiUrl (owner parsed) (repo parsed), zipUrl (owner parsed) (repo parsed) br], [],
                Failure 404 (BranchNotFound br))"
      using stage download_archive_other [OF first_fails other] by simp
    then show "import_route w m now req =
              Some \<lparr>response = Failure 404 (BranchNotFound br), rateLimitMap = m',
                    fetched = [apiUrl (owner parsed) (repo parsed),
                               zipUrl (owner parsed) (repo parsed) br],
                    uploads = []\<rparr>"
      using route by simp
  }
  {
    assume main: "br = ''main''"
    show "map_option fetched (import_route w m now req) =
              map_option
                (\<lambda>settled. [apiUrl (owner parsed) (repo parsed),
                            zipUrl (owner parsed) (repo parsed) br,
                            masterUrl (owner parsed) (repo parsed)])
                (fetchBuffer (net w) (MAX_REPO_SIZE_BYTES (env_MAX_REPO_SIZE_MB w))
                   (masterUrl (owner parsed) (repo parsed)))"
      using route stage download_archive_main [OF first_fails [unfolded main]] main
      by (cases "fetchBuffer (net w) (MAX_REPO_SIZE_BYTES (env_MAX_REPO_SIZE_MB w))
                   (masterUrl (owner parsed) (repo parsed))")
         (auto simp: case_prod_beta split: sum.splits)
  }
qed


text \<open>
  The theorem in the demonstration world, for a requested branch that is not \<^verbatim>\<open>main\<close>
  (no second fetch) and for the request that names no branch (the second fetch).
\<close>

theorem fallback_iff_branch_is_main_witness:
  "import_route demo_world Map.empty 1000 request_odd =
     Some \<lparr>response = Failure 404 (BranchNotFound ''../x y?z''),
           rateLimitMap = [''10.0.0.7'' \<mapsto> \<lparr>count = 1, resetTime = 61000\<rparr>],
           fetched = [apiUrl ''octocat'' ''repo'', zipUrl ''octocat'' ''repo'' ''../x y?z''],
           uploads = []\<rparr>
   \<and> map_option fetched (import_route demo_world Map.empty 1000 request_default) =
       Some [apiUrl ''octocat'' ''repo'', zipUrl ''octocat'' ''repo'' ''main'',
             masterUrl ''octocat'' ''repo'']"
proof -
  let ?p = "\<lparr>owner = ''octocat'', repo = ''repo'', branch = ''main''\<rparr>"
  let ?odd = "\<lparr>repoUrl = Some ''https://github.com/octocat/repo'', requestedBranch = Some ''../x y?z''\<rparr>"
  let ?dflt = "\<lparr>repoUrl = Some ''https://github.com/octocat/repo'', requestedBranch = None\<rparr>"
  have rate_odd: "checkRateLimit Map.empty 1000 (clientIp request_odd)
      = (True, [''10.0.0.7'' \<mapsto> \<lparr>count = 1, resetTime = 61000\<rparr>])"
    by (simp add: request_odd_def demo_rate)
  have rate_dflt: "checkRateLimit Map.empty 1000 (clientIp request_default)
      = (True, [''10.0.0.7'' \<mapsto> \<lparr>count = 1, resetTime = 61000\<rparr>])"
    by (simp add: request_default_def demo_rate)
  have bd_odd: "body request_odd = Some ?odd" "repoUrl ?odd = Some ''https://github.com/octocat/repo''"
    "''https://github.com/octocat/repo'' \<noteq> []"
    by (simp_all add: request_odd_def)
  have bd_dflt: "body request_default = Some ?dflt" "repoUrl ?dflt = Some ''https://github.com/octocat/repo''"
    "''https://github.com/octocat/repo'' \<noteq> []"
    by (simp_all add: request_default_def)
  have meta: "fetchJson (net demo_world) (JSON_parse demo_world) (apiUrl (owner ?p) (repo ?p))
      = Inr (JObject no_meta)"
    by (simp add: demo_meta)
  have small: "int (or_default (size_kb no_meta) 0 * 1024)
      \<le> MAX_REPO_SIZE_BYTES (env_MAX_REPO_SIZE_MB demo_world)"
    by (simp add: demo_cap no_meta_def or_default_def)
  have br_odd: "''../x y?z'' = effective_branch (requestedBranch ?odd) ?p"
    by (simp add: effective_branch_def)
  have br_dflt: "''main'' = effective_branch (requestedBranch ?dflt) ?p"
    by (simp add: effective_branch_def)
  have fails_odd: "fetchBuffer (net demo_world) (MAX_REPO_SIZE_BYTES (env_MAX_REPO_SIZE_MB demo_world))
      (zipUrl (owner ?p) (repo ?p) ''../x y?z'') = Some (Inl RequestError)"
    by (simp add: demo_cap demo_odd)
  have fails_main: "fetchBuffer (net demo_world) (MAX_REPO_SIZE_BYTES (env_MAX_REPO_SIZE_MB demo_world))
      (zipUrl (owner ?p) (repo ?p) ''main'') = Some (Inl (HTTPStatus 404))"
    by (simp add: demo_cap demo_main)
  from fallback_iff_branch_is_main [OF rate_odd bd_odd demo_parse meta small br_odd fails_odd]
  have odd: "import_route demo_world Map.empty 1000 request_odd =
     Some \<lparr>response = Failure 404 (BranchNotFound ''../x y?z''),
           rateLimitMap = [''10.0.0.7'' \<mapsto> \<lparr>count = 1, resetTime = 61000\<rparr>],
           fetched = [apiUrl ''octocat'' ''repo'', zipUrl ''octocat'' ''repo'' ''../x y?z''],
           uploads = []\<rparr>"
    by simp
  from fallback_iff_branch_is_main [OF rate_dflt bd_dflt demo_parse meta small br_dflt fails_main]
  have "map_option fetched (import_route demo_world Map.empty 1000 request_default) =
       Some [apiUrl ''octocat'' ''repo'', zipUrl ''octocat'' ''repo'' ''main'',
             masterUrl ''octocat'' ''repo'']"
    by (simp add: demo_cap demo_master)
  with odd show ?thesis
    by (simp only: simp_thms)
qed

text \<open>
  Claim C2 as stated fails for the request whose body names the branch \<^verbatim>\<open>main\<close>: the
  archive of \<^verbatim>\<open>main\<close> answers 404, and the route goes on to fetch the archive of
  \<^verbatim>\<open>master\<close> instead of answering with the branch-not-found error.
\<close>

theorem no_fallback_for_explicit_branch_counterexample:
  "requestedBranch (the (body request_main)) = Some ''main''
   \<and> fetchBuffer (net demo_world) 104857600 (zipUrl ''octocat'' ''repo'' ''main'') = Some (Inl (HTTPStatus 404))
   \<and> map_option fetched (import_route demo_world Map.empty 1000 request_main) =
       Some [apiUrl ''octocat'' ''repo'', zipUrl ''octocat'' ''repo'' ''main'',
             masterUrl ''octocat'' ''repo'']
   \<and> map_option response (import_route demo_world Map.empty 1000 request_main)
       \<noteq> Some (Failure 404 (BranchNotFound ''main''))"
proof -
  have "requestedBranch (the (body request_main)) = Some ''main''"
    by (simp add: request_main_def)
  then show ?thesis
    by (simp add: demo_main demo_route_main)
qed

section \<open>The import route: the branch in the archive URL\<close>



section \<open>The import route: failed uploads and the counters\<close>

text \<open>
  Claim C10. When the archive opens and the import of it ends in a 201 response, the
  response's \<^verbatim>\<open>skippedCount\<close> is the count of the extraction loop, its
  \<^verbatim>\<open>totalSize\<close> is the sum of the sizes of all admitted files, and its
  \<^verbatim>\<open>fileCount\<close> is the number of admitted files less the uploads that failed. No
  other field depends on the uploads: with \<^verbatim>\<open>fileCount\<close> set aside, the response is
  fixed by the archive, the metadata and the container's name and identifiers.
\<close>

theorem upload_failures_leave_counters:
  assumes "AdmZip w zipBuffer = Some es"
    and "import_archive w own rep br meta zipBuffer = (evs, Created r)"
  shows "res_skippedCount r = skippedCount (extract_entries es)
       \<and> res_totalSize r = sum_list (map file_size (files (extract_entries es)))
       \<and> res_fileCount r + failed_uploads w (files (extract_entries es))
           = length (files (extract_entries es))
       \<and> r\<lparr>res_fileCount := 0\<rparr> =
           \<lparr>res_containerId = container_id w,
            res_containerName =
              (if findOne w (take 50 (''gh-'' @ own @ ''-'' @ rep)) = Some True
               then take 50 (''gh-'' @ own @ ''-'' @ rep) @ ''-'' @ randomBytes3 w
               else take 50 (''gh-'' @ own @ ''-'' @ rep)),
            res_password = randomBytes6 w,
            res_sandboxUrl = ''#/sandbox/'' @ container_id w,
            res_fileCount = 0,
            res_skippedCount = skippedCount (extract_entries es),
            res_totalSize = sum_list (map file_size (files (extract_entries es))),
            res_repoInfo =
              \<lparr>info_owner = own, info_repo = rep, info_branch = br,
               info_description = or_default (description meta) [],
               info_stars = or_default (stargazers_count meta) 0,
               info_language = or_default (language meta) []\<rparr>\<rparr>"
proof -
  let ?ex = "extract_entries es"
  from assms have fs: "import_files w own rep br meta ?ex = (evs, Created r)"
    by (simp add: import_archive_def Let_def split: if_splits)
  then have r: "res_skippedCount r = skippedCount ?ex" "res_totalSize r = totalSize ?ex"
    "res_fileCount r = length (snd (upload_all w (files ?ex)))"
    by (auto simp: import_files_def Let_def split: option.splits prod.splits if_splits)
  from fs have rest: "r\<lparr>res_fileCount := 0\<rparr> =
           \<lparr>res_containerId = container_id w,
            res_containerName =
              (if findOne w (take 50 (''gh-'' @ own @ ''-'' @ rep)) = Some True
               then take 50 (''gh-'' @ own @ ''-'' @ rep) @ ''-'' @ randomBytes3 w
               else take 50 (''gh-'' @ own @ ''-'' @ rep)),
            res_password = randomBytes6 w,
            res_sandboxUrl = ''#/sandbox/'' @ container_id w,
            res_fileCount = 0,
            res_skippedCount = skippedCount ?ex,
            res_totalSize = totalSize ?ex,
            res_repoInfo =
              \<lparr>info_owner = own, info_repo = rep, info_branch = br,
               info_description = or_default (description meta) [],
               info_stars = or_default (stargazers_count meta) 0,
               info_language = or_default (language meta) []\<rparr>\<rparr>"
    by (auto simp: import_files_def Let_def split: option.splits prod.splits if_splits)
  show ?thesis
    using r rest upload_all_count [of w "files ?ex"] extract_entries_total [of es] by simp
qed

text \<open>
  The theorem in the demonstration world: two files are admitted, six bytes in all, the upload
  of one fails, and the response counts one file, one skipped entry and six bytes.
\<close>

theorem upload_failures_leave_counters_witness:
  "failed_uploads demo_world (files (extract_entries small_archive)) = 1
   \<and> length (files (extract_entries small_archive)) = 2
   \<and> sum_list (map file_size (files (extract_entries small_archive))) = 6
   \<and> snd (import_archive demo_world ''octocat'' ''repo'' ''main'' no_meta ''PKzip'')
       = Created
          \<lparr>res_containerId = ''65f0'', res_containerName = ''gh-octocat-repo'',
           res_password = ''a1b2c3d4e5f6'', res_sandboxUrl = ''#/sandbox/65f0'',
           res_fileCount = 1, res_skippedCount = 1, res_totalSize = 6,
           res_repoInfo =
             \<lparr>info_owner = ''octocat'', info_repo = ''repo'', info_branch = ''main'',
              info_description = [], info_stars = 0, info_language = []\<rparr>\<rparr>"
proof -
  have opened: "AdmZip demo_world ''PKzip'' = Some small_archive"
    by (simp add: demo_world_def)
  have admitted: "length (files (extract_entries small_archive)) = 2"
    by (simp add: small_archive_extracted)
  from upload_failures_leave_counters [OF opened demo_archive [of "''main''"]] admitted
  show ?thesis
    by (simp add: demo_archive)
qed

end
